theory Spec2Isabelle
  imports Complex_Main "HOL-Library.AList" "HOL-Library.Multiset" "HOL-Library.Word"
begin

section \<open>The 2d-pixel sprite pipeline of pixel-forge\<close>

text \<open>
  A shallow embedding of \<^verbatim>\<open>packages/pixel-forge/src/renderer/pipeline/2d-pixel/pipeline.ts\<close>
  (the version with eight floats per vertex, rotation and source frames).

  A JavaScript number is a double: a finite real, an infinity or NaN, and every
  arithmetic operation rounds its exact result to the nearest double, ties to even. An
  element of a \<^verbatim>\<open>Float32Array\<close> is a single-precision value, and a store into the array
  rounds the number to the nearest one. The two zeros of the format are one value here
  (JavaScript's \<^verbatim>\<open>===\<close> does not tell them apart either).
  Counts and handles are natural numbers, the dimensions of a texture are unsigned 32-bit
  integers. A JavaScript \<^verbatim>\<open>Map\<close> is an association list in insertion order
  (\<open>map_of\<close> is \<^verbatim>\<open>get\<close>, \<open>AList.update\<close> is \<^verbatim>\<open>set\<close>: an existing key keeps its place,
  a new key goes to the end), a \<^verbatim>\<open>Float32Array\<close> is a list of fixed length
  (a write outside the array changes nothing, in JavaScript as in \<open>list_update\<close>).
\<close>

subsection \<open>Constants\<close>

definition MAX_SPRITES_PER_BATCH :: nat where
  "MAX_SPRITES_PER_BATCH = 10000"

definition INDICES_PER_SPRITE :: nat where
  "INDICES_PER_SPRITE = 6"

definition FLOATS_PER_VERTEX :: nat where
  "FLOATS_PER_VERTEX = 8"

definition FLOATS_PER_SPRITE :: nat where
  "FLOATS_PER_SPRITE = 4 * FLOATS_PER_VERTEX"

subsection \<open>Numbers\<close>

datatype number = Finite real | PosInfinity | NegInfinity | NaN

definition pow2 :: "int \<Rightarrow> real" where
  "pow2 k = (if 0 \<le> k then 2 ^ nat k else 1 / 2 ^ nat (- k))"

text \<open>The nearest integer, the even one of the two when they are equally near.\<close>

definition round_even :: "real \<Rightarrow> int" where
  "round_even q =
     (let f = \<lfloor>q\<rfloor>
      in if q - of_int f < 1 / 2 then f
         else if 1 / 2 < q - of_int f then f + 1
         else if even f then f else f + 1)"

text \<open>
  Rounding of a real to the binary format with \<open>p\<close> bits of precision and exponents from
  \<open>emin\<close> to \<open>emax\<close>: to the nearest multiple of the unit in the last place of its binade
  (of the subnormal unit below \<open>2 ^ emin\<close>), and to an infinity when that multiple is
  beyond the format.
\<close>

definition binary_round :: "nat \<Rightarrow> int \<Rightarrow> int \<Rightarrow> real \<Rightarrow> number" where
  "binary_round p emin emax x =
     (if x = 0 then Finite 0
      else let e = max emin \<lfloor>log 2 \<bar>x\<bar>\<rfloor>;
               ulp = pow2 (e - (int p - 1));
               r = of_int (round_even (x / ulp)) * ulp
           in if pow2 (emax + 1) \<le> \<bar>r\<bar>
              then (if 0 < x then PosInfinity else NegInfinity)
              else Finite r)"

definition binary64 :: "real \<Rightarrow> number" where
  "binary64 = binary_round 53 (- 1022) 1023"

definition binary32 :: "real \<Rightarrow> number" where
  "binary32 = binary_round 24 (- 126) 127"

text \<open>The conversion of a store into a \<^verbatim>\<open>Float32Array\<close> (\<^verbatim>\<open>Math.fround\<close>).\<close>

primrec fround :: "number \<Rightarrow> number" where
  "fround (Finite a) = binary32 a"
| "fround PosInfinity = PosInfinity"
| "fround NegInfinity = NegInfinity"
| "fround NaN = NaN"

text \<open>The sign of a number that is not NaN; zero counts as \<open>+0\<close>.\<close>

primrec positive :: "number \<Rightarrow> bool" where
  "positive (Finite a) = (0 \<le> a)"
| "positive PosInfinity = True"
| "positive NegInfinity = False"
| "positive NaN = False"

primrec js_neg :: "number \<Rightarrow> number" where
  "js_neg (Finite a) = Finite (- a)"
| "js_neg PosInfinity = NegInfinity"
| "js_neg NegInfinity = PosInfinity"
| "js_neg NaN = NaN"

fun js_add :: "number \<Rightarrow> number \<Rightarrow> number" where
  "js_add (Finite a) (Finite b) = binary64 (a + b)"
| "js_add NaN y = NaN"
| "js_add x NaN = NaN"
| "js_add PosInfinity NegInfinity = NaN"
| "js_add NegInfinity PosInfinity = NaN"
| "js_add PosInfinity y = PosInfinity"
| "js_add x PosInfinity = PosInfinity"
| "js_add NegInfinity y = NegInfinity"
| "js_add x NegInfinity = NegInfinity"

definition js_sub :: "number \<Rightarrow> number \<Rightarrow> number" where
  "js_sub x y = js_add x (js_neg y)"

fun js_mul :: "number \<Rightarrow> number \<Rightarrow> number" where
  "js_mul (Finite a) (Finite b) = binary64 (a * b)"
| "js_mul NaN y = NaN"
| "js_mul x NaN = NaN"
| "js_mul x y =
     (if x = Finite 0 \<or> y = Finite 0 then NaN
      else if positive x = positive y then PosInfinity else NegInfinity)"

text \<open>
  A divisor that is zero is \<open>+0\<close>, as the width and the height of a texture are.
\<close>

fun js_div :: "number \<Rightarrow> number \<Rightarrow> number" where
  "js_div (Finite a) (Finite b) =
     (if b = 0
      then (if a = 0 then NaN else if 0 < a then PosInfinity else NegInfinity)
      else binary64 (a / b))"
| "js_div NaN y = NaN"
| "js_div x NaN = NaN"
| "js_div (Finite a) y = Finite 0"
| "js_div x (Finite b) = (if positive x = (0 \<le> b) then PosInfinity else NegInfinity)"
| "js_div x y = NaN"

text \<open>The condition of \<^verbatim>\<open>if (n)\<close> for a number: false for zero and for NaN.\<close>

primrec truthy :: "number \<Rightarrow> bool" where
  "truthy (Finite a) = (a \<noteq> 0)"
| "truthy PosInfinity = True"
| "truthy NegInfinity = True"
| "truthy NaN = False"

text \<open>An unsigned 32-bit integer as a number; every one of them is a double.\<close>

definition of_uint :: "32 word \<Rightarrow> number" where
  "of_uint w = Finite (real (unat w))"

subsection \<open>Data\<close>

type_synonym vec2 = "number \<times> number"

text \<open>
  A \<^verbatim>\<open>GPUTexture\<close>: an object (its identity is \<open>tex_id\<close>) with pixel dimensions
  (\<^verbatim>\<open>unsigned long\<close> attributes).
\<close>

record gpu_texture =
  tex_id :: nat
  tex_width :: "32 word"
  tex_height :: "32 word"

record frame_rect =
  frame_x :: number
  frame_y :: number
  frame_width :: number
  frame_height :: number

text \<open>The fields of a \<^verbatim>\<open>Sprite\<close> that the render pass reads.\<close>

record sprite =
  sprite_texture :: gpu_texture
  sprite_x :: number
  sprite_y :: number
  sprite_width :: number
  sprite_height :: number
  sprite_rotation :: number
  sprite_origin :: vec2
  sprite_frame :: frame_rect
  sprite_color :: "number \<times> number \<times> number"
  sprite_alpha :: number

text \<open>\<open>vertices\<close> is the batch's \<^verbatim>\<open>Float32Array\<close>: its elements are single-precision values.\<close>

record batch =
  instances :: nat
  vertices :: "number list"
  batch_texture :: gpu_texture

type_synonym batch_map = "(gpu_texture \<times> batch list) list"

subsection \<open>The GPU device\<close>

text \<open>
  A bind group is an object made by \<^verbatim>\<open>device.createBindGroup\<close>; the number is its place in
  the device's creation log, the texture is the one whose view it binds.
\<close>

datatype bind_group =
  ProjectionViewMatrixBindGroup
  | TextureBindGroup nat gpu_texture

datatype gpu_command =
  BeginRenderPass
  | SetPipeline
  | SetIndexBuffer
  | SetVertexBuffer nat nat
  | SetBindGroup nat bind_group
  | DrawIndexed nat
  | EndPass

text \<open>
  What the pipeline does to the device: the bind groups it created, the number of vertex
  buffers it allocated (a vertex buffer is named by its allocation number), the data last
  written to each buffer, and the command buffers submitted to the queue.
\<close>

record gpu_device =
  bind_groups_created :: "bind_group list"
  vertex_buffers_allocated :: nat
  buffer_data :: "nat \<Rightarrow> number list"
  submitted :: "gpu_command list list"

definition createBindGroup :: "gpu_device \<Rightarrow> gpu_texture \<Rightarrow> bind_group \<times> gpu_device" where
  "createBindGroup dev texture =
     (let g = TextureBindGroup (length (bind_groups_created dev)) texture
      in (g, dev\<lparr>bind_groups_created := bind_groups_created dev @ [g]\<rparr>))"

text \<open>
  Modelled from the spec: \<^verbatim>\<open>vertexBufferAllocator\<close> (buffer/vertex-buffer-allocator.ts is
  not among the sources), a leaf utility that creates a GPU-resident vertex buffer from a
  typed array. Every call returns a new buffer holding the data.
\<close>

definition vertexBufferAlloc :: "gpu_device \<Rightarrow> number list \<Rightarrow> nat \<times> gpu_device" where
  "vertexBufferAlloc dev data =
     (let b = vertex_buffers_allocated dev
      in (b, dev\<lparr>vertex_buffers_allocated := Suc b,
                 buffer_data := (buffer_data dev)(b := data)\<rparr>))"

definition writeBuffer :: "gpu_device \<Rightarrow> nat \<Rightarrow> number list \<Rightarrow> gpu_device" where
  "writeBuffer dev b data = dev\<lparr>buffer_data := (buffer_data dev)(b := data)\<rparr>"

definition submit :: "gpu_device \<Rightarrow> gpu_command list \<Rightarrow> gpu_device" where
  "submit dev commands = dev\<lparr>submitted := submitted dev @ [commands]\<rparr>"

subsection \<open>The state the returned render pass closes over\<close>

record pipeline_state =
  device :: gpu_device
  vertexBuffers :: "nat list"
  textureBindGroups :: "(gpu_texture \<times> bind_group) list"

text \<open>\<^verbatim>\<open>new Float32Array(MAX_SPRITES_PER_BATCH * FLOATS_PER_SPRITE)\<close>: all zeros.\<close>

definition empty_vertices :: "number list" where
  "empty_vertices = replicate (MAX_SPRITES_PER_BATCH * FLOATS_PER_SPRITE) (Finite 0)"

text \<open>\<^verbatim>\<open>pipeline(...)\<close>: the part of the construction that the render pass depends on.\<close>

definition pipeline :: "gpu_device \<Rightarrow> pipeline_state" where
  "pipeline dev =
     (let dev1 = dev\<lparr>bind_groups_created :=
                       bind_groups_created dev @ [ProjectionViewMatrixBindGroup]\<rparr>;
          (b, dev2) = vertexBufferAlloc dev1 empty_vertices
      in \<lparr>device = dev2, vertexBuffers = [b], textureBindGroups = []\<rparr>)"

subsection \<open>The vertex writer\<close>

text \<open>
  Modelled from the spec: \<^verbatim>\<open>Math.sin\<close> and \<^verbatim>\<open>Math.cos\<close> as they are used by \<^verbatim>\<open>rotate\<close>
  (math/vec2.ts is not among the sources). They are taken as the nearest double of the
  sine and the cosine; the language leaves their precision to the implementation.
\<close>

primrec js_sin :: "number \<Rightarrow> number" where
  "js_sin (Finite a) = binary64 (sin a)"
| "js_sin PosInfinity = NaN"
| "js_sin NegInfinity = NaN"
| "js_sin NaN = NaN"

primrec js_cos :: "number \<Rightarrow> number" where
  "js_cos (Finite a) = binary64 (cos a)"
| "js_cos PosInfinity = NaN"
| "js_cos NegInfinity = NaN"
| "js_cos NaN = NaN"

text \<open>
  Modelled from the spec: \<^verbatim>\<open>rotate\<close> (math/vec2.ts is not among the sources). The spec
  says that the rotation uses the standard 2D rotation matrix around the pivot.
\<close>

definition rotate :: "vec2 \<Rightarrow> vec2 \<Rightarrow> number \<Rightarrow> vec2" where
  "rotate p c a =
     (let dx = js_sub (fst p) (fst c);
          dy = js_sub (snd p) (snd c)
      in (js_add (fst c) (js_sub (js_mul dx (js_cos a)) (js_mul dy (js_sin a))),
          js_add (snd c) (js_add (js_mul dx (js_sin a)) (js_mul dy (js_cos a)))))"

text \<open>
  The corners top-left, top-right, bottom-right, bottom-left.
  \<^verbatim>\<open>if (sprite.rotation)\<close> is taken when the number is neither zero nor NaN.
\<close>

definition sprite_corners :: "sprite \<Rightarrow> vec2 \<times> vec2 \<times> vec2 \<times> vec2" where
  "sprite_corners s =
     (let topLeft = (sprite_x s, sprite_y s);
          topRight = (js_add (sprite_x s) (sprite_width s), sprite_y s);
          bottomRight = (js_add (sprite_x s) (sprite_width s),
                         js_add (sprite_y s) (sprite_height s));
          bottomLeft = (sprite_x s, js_add (sprite_y s) (sprite_height s))
      in if truthy (sprite_rotation s)
         then (let origin =
                     (js_add (sprite_x s) (js_mul (fst (sprite_origin s)) (sprite_width s)),
                      js_add (sprite_y s) (js_mul (snd (sprite_origin s)) (sprite_height s)))
               in (rotate topLeft origin (sprite_rotation s),
                   rotate topRight origin (sprite_rotation s),
                   rotate bottomRight origin (sprite_rotation s),
                   rotate bottomLeft origin (sprite_rotation s)))
         else (topLeft, topRight, bottomRight, bottomLeft))"

definition sprite_u :: "sprite \<Rightarrow> vec2" where
  "sprite_u s =
     (js_div (frame_x (sprite_frame s)) (of_uint (tex_width (sprite_texture s))),
      js_div (js_add (frame_x (sprite_frame s)) (frame_width (sprite_frame s)))
        (of_uint (tex_width (sprite_texture s))))"

definition sprite_v :: "sprite \<Rightarrow> vec2" where
  "sprite_v s =
     (js_div (frame_y (sprite_frame s)) (of_uint (tex_height (sprite_texture s))),
      js_div (js_add (frame_y (sprite_frame s)) (frame_height (sprite_frame s)))
        (of_uint (tex_height (sprite_texture s))))"

text \<open>
  The 32 writes into \<^verbatim>\<open>batch.vertices\<close>, each of them a store into a \<^verbatim>\<open>Float32Array\<close>,
  and \<^verbatim>\<open>batch.instances++\<close>.
\<close>

definition write_vertices :: "batch \<Rightarrow> sprite \<Rightarrow> batch" where
  "write_vertices b s =
     (case sprite_corners s of (topLeft, topRight, bottomRight, bottomLeft) \<Rightarrow>
      case sprite_color s of (c0, c1, c2) \<Rightarrow>
      let u = sprite_u s;
          v = sprite_v s;
          i = instances b * FLOATS_PER_SPRITE
      in b\<lparr>vertices := (vertices b)
             [0 + i := fround (fst topLeft),
              1 + i := fround (snd topLeft),
              2 + i := fround (fst u),
              3 + i := fround (fst v),
              4 + i := fround c0,
              5 + i := fround c1,
              6 + i := fround c2,
              7 + i := fround (sprite_alpha s),
              8 + i := fround (fst topRight),
              9 + i := fround (snd topRight),
              10 + i := fround (snd u),
              11 + i := fround (fst v),
              12 + i := fround c0,
              13 + i := fround c1,
              14 + i := fround c2,
              15 + i := fround (sprite_alpha s),
              16 + i := fround (fst bottomRight),
              17 + i := fround (snd bottomRight),
              18 + i := fround (snd u),
              19 + i := fround (snd v),
              20 + i := fround c0,
              21 + i := fround c1,
              22 + i := fround c2,
              23 + i := fround (sprite_alpha s),
              24 + i := fround (fst bottomLeft),
              25 + i := fround (snd bottomLeft),
              26 + i := fround (fst u),
              27 + i := fround (snd v),
              28 + i := fround c0,
              29 + i := fround c1,
              30 + i := fround c2,
              31 + i := fround (sprite_alpha s)],
           instances := instances b + 1\<rparr>)"

subsection \<open>The batching loop\<close>

text \<open>The lookup in the bind-group cache, and the creation of a missing entry.\<close>

definition register_texture :: "gpu_texture \<Rightarrow> pipeline_state \<Rightarrow> pipeline_state" where
  "register_texture texture st =
     (case map_of (textureBindGroups st) texture of
        None \<Rightarrow>
          (case createBindGroup (device st) texture of (g, dev) \<Rightarrow>
             st\<lparr>device := dev,
                textureBindGroups := AList.update texture g (textureBindGroups st)\<rparr>)
      | Some g \<Rightarrow> st)"

definition new_batch :: "gpu_texture \<Rightarrow> batch" where
  "new_batch texture =
     \<lparr>instances = 0, vertices = empty_vertices, batch_texture = texture\<rparr>"

text \<open>
  The batch list of the sprite's texture, its last batch (a new one when there is none or
  the last one is full), and the write of the sprite into that batch.
\<close>

definition add_sprite :: "sprite \<Rightarrow> batch_map \<Rightarrow> batch_map" where
  "add_sprite s batchMap =
     (let texture = sprite_texture s;
          batches = (case map_of batchMap texture of None \<Rightarrow> [] | Some bs \<Rightarrow> bs);
          batches1 = (if batches = [] \<or> instances (last batches) = MAX_SPRITES_PER_BATCH
                      then batches @ [new_batch texture] else batches)
      in AList.update texture (butlast batches1 @ [write_vertices (last batches1) s]) batchMap)"

definition batch_sprite ::
  "sprite \<Rightarrow> pipeline_state \<times> batch_map \<Rightarrow> pipeline_state \<times> batch_map" where
  "batch_sprite s = (\<lambda>(st, batchMap).
     (register_texture (sprite_texture s) st, add_sprite s batchMap))"

definition batching :: "pipeline_state \<Rightarrow> sprite list \<Rightarrow> pipeline_state \<times> batch_map" where
  "batching st sprites = fold batch_sprite sprites (st, [])"

subsection \<open>The draw loop\<close>

datatype render_error = TextureBindGroupNotFound

type_synonym draw_state = "pipeline_state \<times> nat list \<times> gpu_command list"

text \<open>\<^verbatim>\<open>vertexBuffers.pop()\<close>, and the allocation of a buffer when the pool is empty.\<close>

definition acquire_vertex_buffer :: "pipeline_state \<Rightarrow> nat \<times> pipeline_state" where
  "acquire_vertex_buffer st =
     (case vertexBuffers st of
        [] \<Rightarrow> (case vertexBufferAlloc (device st) empty_vertices of
                 (vb, dev) \<Rightarrow> (vb, st\<lparr>device := dev\<rparr>))
      | _ # _ \<Rightarrow> (last (vertexBuffers st),
                  st\<lparr>vertexBuffers := butlast (vertexBuffers st)\<rparr>))"

text \<open>
  One round of the inner loop; the state is the closure's state, \<^verbatim>\<open>usedVertexBuffers\<close> and
  the commands recorded by the pass encoder.
\<close>

definition draw_batch :: "batch \<Rightarrow> draw_state \<Rightarrow> render_error + draw_state" where
  "draw_batch b = (\<lambda>(st, usedVertexBuffers, pass).
     case acquire_vertex_buffer st of (vertexBuffer, st1) \<Rightarrow>
       let st2 = st1\<lparr>device := writeBuffer (device st1) vertexBuffer (vertices b)\<rparr>;
           used = usedVertexBuffers @ [vertexBuffer]
       in (case map_of (textureBindGroups st2) (batch_texture b) of
             None \<Rightarrow> Inl TextureBindGroupNotFound
           | Some textureBindGroup \<Rightarrow>
               Inr (st2, used,
                    pass @ [SetPipeline, SetIndexBuffer, SetVertexBuffer 0 vertexBuffer,
                            SetBindGroup 0 ProjectionViewMatrixBindGroup,
                            SetBindGroup 1 textureBindGroup,
                            DrawIndexed (6 * instances b)])))"

fun draw_batches :: "batch list \<Rightarrow> draw_state \<Rightarrow> render_error + draw_state" where
  "draw_batches [] ds = Inr ds"
| "draw_batches (b # bs) ds =
     (case draw_batch b ds of Inl e \<Rightarrow> Inl e | Inr ds' \<Rightarrow> draw_batches bs ds')"

fun draw_groups :: "batch list list \<Rightarrow> draw_state \<Rightarrow> render_error + draw_state" where
  "draw_groups [] ds = Inr ds"
| "draw_groups (batches # rest) ds =
     (case draw_batches batches ds of Inl e \<Rightarrow> Inl e | Inr ds' \<Rightarrow> draw_groups rest ds')"

subsection \<open>The render pass\<close>

definition render :: "pipeline_state \<Rightarrow> sprite list \<Rightarrow> render_error + pipeline_state" where
  "render st sprites =
     (case batching st sprites of (st1, batchMap) \<Rightarrow>
        (case draw_groups (map snd batchMap) (st1, [], [BeginRenderPass]) of
           Inl e \<Rightarrow> Inl e
         | Inr (st2, usedVertexBuffers, pass) \<Rightarrow>
             Inr (st2\<lparr>device := submit (device st2) (pass @ [EndPass]),
                      vertexBuffers := vertexBuffers st2 @ usedVertexBuffers\<rparr>)))"

text \<open>One call per frame; an exception ends the frame loop.\<close>

fun render_frames :: "pipeline_state \<Rightarrow> sprite list list \<Rightarrow> render_error + pipeline_state" where
  "render_frames st [] = Inr st"
| "render_frames st (sprites # frames) =
     (case render st sprites of Inl e \<Rightarrow> Inl e | Inr st' \<Rightarrow> render_frames st' frames)"

section \<open>Vocabulary of the statements\<close>

text \<open>
  The 32 single-precision values that the vertex writer stores for one sprite, in the
  order of the writes: top-left, top-right, bottom-right, bottom-left, each with
  x, y, u, v, r, g, b, a.
\<close>

definition sprite_floats :: "sprite \<Rightarrow> number list" where
  "sprite_floats s =
     (case sprite_corners s of (topLeft, topRight, bottomRight, bottomLeft) \<Rightarrow>
      case sprite_color s of (c0, c1, c2) \<Rightarrow>
        map fround
          [fst topLeft, snd topLeft, fst (sprite_u s), fst (sprite_v s),
             c0, c1, c2, sprite_alpha s,
           fst topRight, snd topRight, snd (sprite_u s), fst (sprite_v s),
             c0, c1, c2, sprite_alpha s,
           fst bottomRight, snd bottomRight, snd (sprite_u s), snd (sprite_v s),
             c0, c1, c2, sprite_alpha s,
           fst bottomLeft, snd bottomLeft, fst (sprite_u s), snd (sprite_v s),
             c0, c1, c2, sprite_alpha s])"

text \<open>A pair of numbers as it is stored into a \<^verbatim>\<open>Float32Array\<close>.\<close>

definition fround2 :: "vec2 \<Rightarrow> vec2" where
  "fround2 p = (fround (fst p), fround (snd p))"

text \<open>The filled slots of a batch, read back from its vertex array in write order.\<close>

definition slots :: "batch \<Rightarrow> number list list" where
  "slots b =
     map (\<lambda>k. take FLOATS_PER_SPRITE (drop (k * FLOATS_PER_SPRITE) (vertices b)))
       [0..<instances b]"

text \<open>The batch list that \<^verbatim>\<open>batchMap\<close> holds for a texture (none: the empty list).\<close>

definition batches_of :: "batch_map \<Rightarrow> gpu_texture \<Rightarrow> batch list" where
  "batches_of batchMap t = (case map_of batchMap t of None \<Rightarrow> [] | Some bs \<Rightarrow> bs)"

text \<open>What \<open>add_sprite\<close> does to the batch list of the sprite's texture.\<close>

definition push_sprite :: "sprite \<Rightarrow> batch list \<Rightarrow> batch list" where
  "push_sprite s batches =
     (let batches1 = (if batches = [] \<or> instances (last batches) = MAX_SPRITES_PER_BATCH
                      then batches @ [new_batch (sprite_texture s)] else batches)
      in butlast batches1 @ [write_vertices (last batches1) s])"

text \<open>The sprites of a list that have a given texture, in the order of the list.\<close>

definition with_texture :: "gpu_texture \<Rightarrow> sprite list \<Rightarrow> sprite list" where
  "with_texture t sprites = filter (\<lambda>s. sprite_texture s = t) sprites"

text \<open>The distinct elements of a list, in the order in which each occurs first.\<close>

definition first_encounter :: "'a list \<Rightarrow> 'a list" where
  "first_encounter xs = rev (remdups (rev xs))"

text \<open>The instance counts of the batches that hold \<open>n\<close> sprites of one texture.\<close>

definition chunk_sizes :: "nat \<Rightarrow> nat list" where
  "chunk_sizes n =
     replicate (n div MAX_SPRITES_PER_BATCH) MAX_SPRITES_PER_BATCH
     @ (if n mod MAX_SPRITES_PER_BATCH = 0 then [] else [n mod MAX_SPRITES_PER_BATCH])"

text \<open>The invariant of the batching loop for the batch list of one texture.\<close>

definition filled :: "batch list \<Rightarrow> sprite list \<Rightarrow> bool" where
  "filled bs fs \<longleftrightarrow>
     map instances bs = chunk_sizes (length fs)
     \<and> (\<forall>b \<in> set bs. length (vertices b) = MAX_SPRITES_PER_BATCH * 32)
     \<and> concat (map slots bs) = map sprite_floats fs
     \<and> (\<forall>b \<in> set bs. batch_texture b \<in> sprite_texture ` set fs)"

text \<open>The index counts of the indexed draw calls of a command list, in order.\<close>

primrec drawn :: "gpu_command \<Rightarrow> nat list" where
  "drawn BeginRenderPass = []"
| "drawn SetPipeline = []"
| "drawn SetIndexBuffer = []"
| "drawn (SetVertexBuffer slot vb) = []"
| "drawn (SetBindGroup slot g) = []"
| "drawn (DrawIndexed n) = [n]"
| "drawn EndPass = []"

definition draw_calls :: "gpu_command list \<Rightarrow> nat list" where
  "draw_calls commands = concat (map drawn commands)"

text \<open>The bind groups set at index 1 (the texture's) by a command list, in order.\<close>

primrec bound_texture_group :: "gpu_command \<Rightarrow> bind_group list" where
  "bound_texture_group BeginRenderPass = []"
| "bound_texture_group SetPipeline = []"
| "bound_texture_group SetIndexBuffer = []"
| "bound_texture_group (SetVertexBuffer slot vb) = []"
| "bound_texture_group (SetBindGroup slot g) = (if slot = 1 then [g] else [])"
| "bound_texture_group (DrawIndexed n) = []"
| "bound_texture_group EndPass = []"

definition texture_binds :: "gpu_command list \<Rightarrow> bind_group list" where
  "texture_binds commands = concat (map bound_texture_group commands)"

text \<open>The textures of the bind groups that \<^verbatim>\<open>device.createBindGroup\<close> made for textures.\<close>

primrec created_for :: "bind_group \<Rightarrow> gpu_texture list" where
  "created_for ProjectionViewMatrixBindGroup = []"
| "created_for (TextureBindGroup n t) = [t]"

definition created_textures :: "bind_group list \<Rightarrow> gpu_texture list" where
  "created_textures gs = concat (map created_for gs)"

text \<open>The batches of a frame in the order of the draw loop.\<close>

definition frame_batches :: "sprite list \<Rightarrow> batch list" where
  "frame_batches sprites = concat (map snd (fold add_sprite sprites []))"

text \<open>The commands that the draw loop records for one batch.\<close>

definition block :: "nat \<Rightarrow> bind_group \<Rightarrow> batch \<Rightarrow> gpu_command list" where
  "block vb g b =
     [SetPipeline, SetIndexBuffer, SetVertexBuffer 0 vb,
      SetBindGroup 0 ProjectionViewMatrixBindGroup, SetBindGroup 1 g,
      DrawIndexed (6 * instances b)]"

text \<open>What a run of the draw loop over the batches \<open>bs\<close> leaves behind.\<close>

definition drawn_from ::
  "batch list \<Rightarrow> draw_state \<Rightarrow> draw_state \<Rightarrow> bool" where
  "drawn_from bs = (\<lambda>(st, used, pass) (st', used', pass').
     textureBindGroups st' = textureBindGroups st
     \<and> bind_groups_created (device st') = bind_groups_created (device st)
     \<and> submitted (device st') = submitted (device st)
     \<and> draw_calls pass' = draw_calls pass @ map (\<lambda>b. 6 * instances b) bs
     \<and> map Some (texture_binds pass')
         = map Some (texture_binds pass)
           @ map (\<lambda>b. map_of (textureBindGroups st) (batch_texture b)) bs
     \<and> length (vertexBuffers st') = length (vertexBuffers st) - length bs
     \<and> length used' = length used + length bs
     \<and> vertex_buffers_allocated (device st')
         = vertex_buffers_allocated (device st) + (length bs - length (vertexBuffers st))
     \<and> mset (vertexBuffers st') + mset used'
         = mset (vertexBuffers st) + mset used
           + mset [vertex_buffers_allocated (device st)
                   ..< vertex_buffers_allocated (device st')])"

text \<open>The closure's state after the cache lookups of the batching loop.\<close>

definition register_all :: "sprite list \<Rightarrow> pipeline_state \<Rightarrow> pipeline_state" where
  "register_all ss st = fold (\<lambda>s. register_texture (sprite_texture s)) ss st"

text \<open>What one call of the render pass does to the closure's state.\<close>

definition rendered :: "pipeline_state \<Rightarrow> sprite list \<Rightarrow> pipeline_state \<Rightarrow> bool" where
  "rendered st ss st' \<longleftrightarrow>
     textureBindGroups st' = textureBindGroups (register_all ss st)
     \<and> bind_groups_created (device st') = bind_groups_created (device (register_all ss st))
     \<and> (\<exists>pass. submitted (device st') = submitted (device st) @ [pass]
           \<and> draw_calls pass = map (\<lambda>b. 6 * instances b) (frame_batches ss)
           \<and> map Some (texture_binds pass)
               = map (\<lambda>b. map_of (textureBindGroups st') (batch_texture b)) (frame_batches ss))
     \<and> vertex_buffers_allocated (device st')
         = vertex_buffers_allocated (device st)
           + (length (frame_batches ss) - length (vertexBuffers st))
     \<and> mset (vertexBuffers st')
         = mset (vertexBuffers st)
           + mset [vertex_buffers_allocated (device st)
                   ..< vertex_buffers_allocated (device st')]"

text \<open>
  Concrete inputs: a 16 by 8 texture, a sprite that shows all of it (as the sprites of the
  demo application do), and the same sprite turned by one radian.
\<close>

definition demo_texture :: gpu_texture where
  "demo_texture = \<lparr>tex_id = 1, tex_width = 16, tex_height = 8\<rparr>"

definition demo_sprite :: sprite where
  "demo_sprite =
     \<lparr>sprite_texture = demo_texture, sprite_x = Finite 10, sprite_y = Finite 20,
      sprite_width = Finite 16, sprite_height = Finite 8, sprite_rotation = Finite 0,
      sprite_origin = (Finite (1 / 2), Finite (1 / 2)),
      sprite_frame = \<lparr>frame_x = Finite 0, frame_y = Finite 0,
                        frame_width = Finite 16, frame_height = Finite 8\<rparr>,
      sprite_color = (Finite 1, Finite 1, Finite 1), sprite_alpha = Finite 1\<rparr>"

definition demo_rotated :: sprite where
  "demo_rotated = demo_sprite\<lparr>sprite_rotation := Finite 1\<rparr>"

text \<open>
  A sprite of width 1 at \<open>x = 2 ^ 24 + 1\<close>, an integer that is a double and is not a
  single-precision value.
\<close>

definition demo_far :: sprite where
  "demo_far = demo_sprite\<lparr>sprite_x := Finite 16777217, sprite_width := Finite 1\<rparr>"

text \<open>
  A sprite whose frame starts at the second pixel column and row of a 3 by 3 texture, and
  a sprite whose frame is all of a texture of width and height 0.
\<close>

definition demo_third :: sprite where
  "demo_third =
     demo_sprite
       \<lparr>sprite_texture := \<lparr>tex_id = 3, tex_width = 3, tex_height = 3\<rparr>,
        sprite_frame := \<lparr>frame_x = Finite 1, frame_y = Finite 1,
                          frame_width = Finite 1, frame_height = Finite 1\<rparr>\<rparr>"

definition demo_zero :: sprite where
  "demo_zero =
     demo_sprite
       \<lparr>sprite_texture := \<lparr>tex_id = 4, tex_width = 0, tex_height = 0\<rparr>,
        sprite_frame := \<lparr>frame_x = Finite 0, frame_y = Finite 0,
                          frame_width = Finite 0, frame_height = Finite 0\<rparr>\<rparr>"

text \<open>A second texture and a sprite with it.\<close>

definition demo_texture_b :: gpu_texture where
  "demo_texture_b = \<lparr>tex_id = 2, tex_width = 4, tex_height = 4\<rparr>"

definition demo_sprite_b :: sprite where
  "demo_sprite_b = demo_sprite\<lparr>sprite_texture := demo_texture_b\<rparr>"

text \<open>A device on which nothing has been created yet.\<close>

definition fresh_device :: gpu_device where
  "fresh_device =
     \<lparr>bind_groups_created = [], vertex_buffers_allocated = 0,
      buffer_data = (\<lambda>b. []), submitted = []\<rparr>"

text \<open>
  The number of vertex buffers that a pipeline built on \<open>dev\<close> has allocated, the one of
  its construction included, when it has rendered the frames (nothing when a frame
  throws).
\<close>

definition buffers_allocated_by :: "gpu_device \<Rightarrow> sprite list list \<Rightarrow> nat option" where
  "buffers_allocated_by dev frames =
     (case render_frames (pipeline dev) frames of
        Inl e \<Rightarrow> None
      | Inr st \<Rightarrow> Some (vertex_buffers_allocated (device st) - vertex_buffers_allocated dev))"

section \<open>Lemmas\<close>

subsection \<open>Rounding\<close>

lemma pow2_powr: "pow2 k = 2 powr (of_int k)"
  by (simp add: pow2_def powr_int field_simps)

lemma round_even_of_int [simp]: "round_even (of_int k) = k"
  by (simp add: round_even_def)

lemma pow2_pos [simp]: "0 < pow2 k"
  by (simp add: pow2_def)

lemma floor_log2_eq:
  assumes "pow2 k \<le> x" and "x < pow2 (k + 1)"
  shows "\<lfloor>log 2 x\<rfloor> = k"
proof -
  have "0 < x" using assms(1) pow2_pos [of k] by linarith
  then show ?thesis
    using assms by (simp add: floor_log_eq_powr_iff pow2_powr)
qed

text \<open>An integer of less than \<open>p\<close> bits is a value of the format.\<close>

lemma binary_round_of_int:
  assumes "\<bar>k\<bar> < 2 ^ p" and "0 < p" and "emin \<le> 0" and "int p \<le> emax + 1"
  shows "binary_round p emin emax (of_int k) = Finite (of_int k)"
proof (cases "k = 0")
  case True
  then show ?thesis by (simp add: binary_round_def)
next
  case False
  let ?x = "of_int k :: real"
  let ?e = "\<lfloor>log 2 \<bar>?x\<bar>\<rfloor>"
  have x1: "1 \<le> \<bar>?x\<bar>" using False by (metis of_int_abs of_int_1_le_iff abs_ge_zero
        zero_less_abs_iff int_one_le_iff_zero_less)
  have xp: "\<bar>?x\<bar> < 2 ^ p" using assms(1) by (metis of_int_abs of_int_less_numeral_power_cancel_iff)
  have e0: "0 \<le> ?e" using x1 by simp
  have "log 2 \<bar>?x\<bar> < real p"
    using xp x1 by (simp add: log_less_iff powr_realpow)
  then have ep: "?e < int p" by linarith
  define d where "d = nat (int p - 1 - ?e)"
  have "emin \<le> ?e" using e0 assms(3) by (rule_tac order_trans)
  then have em: "max emin ?e = ?e" by (rule max.absorb2)
  have ulp: "pow2 (?e - (int p - 1)) = 1 / 2 ^ d"
    using ep by (auto simp add: pow2_def d_def nat_diff_distrib)
  have q: "?x / (1 / 2 ^ d) = of_int (k * 2 ^ d)" by simp
  have r: "of_int (round_even (?x / (1 / 2 ^ d))) * (1 / 2 ^ d) = ?x"
    unfolding q round_even_of_int by simp
  have "2 ^ p \<le> pow2 (emax + 1)"
  proof -
    have "0 \<le> emax + 1" using assms(2,4) by linarith
    moreover have "p \<le> nat (emax + 1)" using assms(4) by linarith
    ultimately show ?thesis by (simp add: pow2_def power_increasing)
  qed
  with xp have nov: "\<not> pow2 (emax + 1) \<le> \<bar>?x\<bar>" by linarith
  show ?thesis
    unfolding binary_round_def Let_def em ulp r using False nov by simp
qed

lemma binary64_of_int: "\<bar>k\<bar> < 2 ^ 53 \<Longrightarrow> binary64 (of_int k) = Finite (of_int k)"
  unfolding binary64_def by (rule binary_round_of_int) simp_all

lemma binary32_of_int: "\<bar>k\<bar> < 2 ^ 24 \<Longrightarrow> binary32 (of_int k) = Finite (of_int k)"
  unfolding binary32_def by (rule binary_round_of_int) simp_all

lemma binary64_numeral:
  "(numeral n :: int) < 2 ^ 53 \<Longrightarrow> binary64 (numeral n) = Finite (numeral n)"
  using binary64_of_int [of "numeral n"] by simp

lemma binary32_numeral:
  "(numeral n :: int) < 2 ^ 24 \<Longrightarrow> binary32 (numeral n) = Finite (numeral n)"
  using binary32_of_int [of "numeral n"] by simp

lemma binary64_0: "binary64 0 = Finite 0"
  by (simp add: binary64_def binary_round_def)

lemma binary32_0: "binary32 0 = Finite 0"
  by (simp add: binary32_def binary_round_def)

lemma binary64_1: "binary64 1 = Finite 1"
  using binary64_of_int [of 1] by simp

lemma binary32_1: "binary32 1 = Finite 1"
  using binary32_of_int [of 1] by simp

lemma binary64_of_uint: "binary64 (real (unat (w :: 32 word))) = Finite (real (unat w))"
proof -
  have "uint w < 2 ^ 32" using uint_lt2p [of w] by simp
  moreover have "0 \<le> uint w" by simp
  ultimately have "\<bar>uint w\<bar> < 2 ^ 53" by simp
  from binary64_of_int [OF this] show ?thesis by simp
qed

lemma binary32_16777217: "binary32 16777217 = Finite 16777216"
proof -
  have "\<lfloor>log 2 (16777217 :: real)\<rfloor> = 24"
    by (rule floor_log2_eq) (simp_all add: pow2_def)
  then show ?thesis
    by (simp add: binary32_def binary_round_def Let_def pow2_def round_even_def)
qed

lemma binary32_16777218: "binary32 16777218 = Finite 16777218"
proof -
  have "\<lfloor>log 2 (16777218 :: real)\<rfloor> = 24"
    by (rule floor_log2_eq) (simp_all add: pow2_def)
  then show ?thesis
    by (simp add: binary32_def binary_round_def Let_def pow2_def round_even_def)
qed

lemma binary64_third: "binary64 (1 / 3) = Finite (6004799503160661 / 18014398509481984)"
proof -
  have "\<lfloor>log 2 (1 / 3 :: real)\<rfloor> = - 2"
    by (rule floor_log2_eq) (simp_all add: pow2_def)
  then show ?thesis
    by (simp add: binary64_def binary_round_def Let_def pow2_def round_even_def)
qed

lemma binary32_third:
  "binary32 (6004799503160661 / 18014398509481984) = Finite (11184811 / 33554432)"
proof -
  have "\<lfloor>log 2 (6004799503160661 / 18014398509481984 :: real)\<rfloor> = - 2"
    by (rule floor_log2_eq) (simp_all add: pow2_def)
  then show ?thesis
    by (simp add: binary32_def binary_round_def Let_def pow2_def round_even_def)
qed

text \<open>The texture coordinates of a frame that is the whole texture.\<close>

lemma full_frame_quotients:
  assumes "w \<noteq> 0"
  shows "js_div (Finite 0) (of_uint w) = Finite 0"
    and "js_div (js_add (Finite 0) (of_uint w)) (of_uint w) = Finite 1"
proof -
  define r where "r = real (unat w)"
  have w: "of_uint w = Finite r" by (simp add: of_uint_def r_def)
  have b: "binary64 r = Finite r" unfolding r_def by (rule binary64_of_uint)
  from assms have n: "r \<noteq> 0" by (simp add: r_def unsigned_eq_0_iff)
  from n show "js_div (Finite 0) (of_uint w) = Finite 0"
    by (simp add: w binary64_0)
  from n show "js_div (js_add (Finite 0) (of_uint w)) (of_uint w) = Finite 1"
    by (simp add: w b binary64_1)
qed

subsection \<open>The vertex writer\<close>

lemma floats_per_sprite: "FLOATS_PER_SPRITE = 32"
  by (simp add: FLOATS_PER_SPRITE_def FLOATS_PER_VERTEX_def)

lemma length_empty_vertices: "length empty_vertices = 320000"
  by (simp add: empty_vertices_def MAX_SPRITES_PER_BATCH_def floats_per_sprite)

lemma length_sprite_floats: "length (sprite_floats s) = 32"
  by (simp add: sprite_floats_def split: prod.splits)

lemma length_write_vertices [simp]:
  "length (vertices (write_vertices b s)) = length (vertices b)"
  by (simp add: write_vertices_def Let_def split: prod.splits)

lemma instances_write_vertices [simp]:
  "instances (write_vertices b s) = Suc (instances b)"
  by (simp add: write_vertices_def Let_def split: prod.splits)

lemma batch_texture_write_vertices [simp]:
  "batch_texture (write_vertices b s) = batch_texture b"
  by (simp add: write_vertices_def Let_def split: prod.splits)

lemma take_drop_update_above:
  "j + m \<le> i \<Longrightarrow> take m (drop j (xs[i := v])) = take m (drop j xs)"
  by (simp add: drop_update_swap)

lemma below_32_cases:
  "j < (32::nat) \<Longrightarrow>
     j = 0 \<or> j = 1 \<or> j = 2 \<or> j = 3 \<or> j = 4 \<or> j = 5 \<or> j = 6 \<or> j = 7 \<or>
     j = 8 \<or> j = 9 \<or> j = 10 \<or> j = 11 \<or> j = 12 \<or> j = 13 \<or> j = 14 \<or> j = 15 \<or>
     j = 16 \<or> j = 17 \<or> j = 18 \<or> j = 19 \<or> j = 20 \<or> j = 21 \<or> j = 22 \<or> j = 23 \<or>
     j = 24 \<or> j = 25 \<or> j = 26 \<or> j = 27 \<or> j = 28 \<or> j = 29 \<or> j = 30 \<or> j = 31"
  by arith

lemma old_slot_write_vertices:
  assumes "k < instances b"
  shows "take 32 (drop (k * 32) (vertices (write_vertices b s)))
         = take 32 (drop (k * 32) (vertices b))"
proof -
  from assms have "k * 32 + 32 \<le> instances b * 32" by simp
  then show ?thesis
    by (simp add: write_vertices_def Let_def floats_per_sprite take_drop_update_above
        split: prod.splits)
qed

lemma nth_write_vertices:
  assumes "instances b * 32 + 32 \<le> length (vertices b)" and "j < 32"
  shows "vertices (write_vertices b s) ! (j + instances b * 32) = sprite_floats s ! j"
proof -
  from assms(1) have len: "31 + instances b * 32 < length (vertices b)" by simp
  from below_32_cases [OF assms(2)] show ?thesis
    using len
    by (elim disjE)
      (simp_all add: write_vertices_def sprite_floats_def Let_def floats_per_sprite
        split: prod.splits)
qed

lemma new_slot_write_vertices:
  assumes "instances b * 32 + 32 \<le> length (vertices b)"
  shows "take 32 (drop (instances b * 32) (vertices (write_vertices b s))) = sprite_floats s"
proof (rule nth_equalityI)
  show "length (take 32 (drop (instances b * 32) (vertices (write_vertices b s))))
        = length (sprite_floats s)"
    using assms by (simp add: length_sprite_floats)
next
  fix j
  assume "j < length (take 32 (drop (instances b * 32) (vertices (write_vertices b s))))"
  then have j: "j < 32" by simp
  with assms show "take 32 (drop (instances b * 32) (vertices (write_vertices b s))) ! j
                   = sprite_floats s ! j"
    by (simp add: nth_write_vertices add.commute)
qed

lemma slots_write_vertices:
  assumes "instances b * 32 + 32 \<le> length (vertices b)"
  shows "slots (write_vertices b s) = slots b @ [sprite_floats s]"
  using assms
  by (simp add: slots_def floats_per_sprite old_slot_write_vertices new_slot_write_vertices)

lemma max_gt_1: "1 < MAX_SPRITES_PER_BATCH"
  by (simp add: MAX_SPRITES_PER_BATCH_def)

lemma length_vertices_new_batch:
  "length (vertices (new_batch t)) = MAX_SPRITES_PER_BATCH * 32"
  by (simp add: new_batch_def empty_vertices_def floats_per_sprite)

lemma slots_new_batch: "slots (new_batch t) = []"
  by (simp add: slots_def new_batch_def)

lemma batch_texture_new_batch: "batch_texture (new_batch t) = t"
  by (simp add: new_batch_def)

lemma instances_new_batch: "instances (new_batch t) = 0"
  by (simp add: new_batch_def)

lemma add_sprite_push:
  "add_sprite s bm =
     AList.update (sprite_texture s)
       (push_sprite s (batches_of bm (sprite_texture s))) bm"
  by (simp add: add_sprite_def push_sprite_def batches_of_def Let_def)

lemma batches_of_add_sprite:
  "batches_of (add_sprite s bm) t =
     (if sprite_texture s = t then push_sprite s (batches_of bm t) else batches_of bm t)"
  by (simp add: add_sprite_push batches_of_def update_conv')

lemma batches_of_fold_add_sprite:
  "batches_of (fold add_sprite ss bm) t = fold push_sprite (with_texture t ss) (batches_of bm t)"
  by (induction ss arbitrary: bm) (simp_all add: with_texture_def batches_of_add_sprite)

lemma filled_Nil: "filled [] []"
  by (simp add: filled_def chunk_sizes_def)

lemma filled_push_sprite:
  assumes "filled bs fs"
  shows "filled (push_sprite s bs) (fs @ [s])"
proof -
  let ?M = MAX_SPRITES_PER_BATCH
  let ?n = "length fs"
  from assms have inst: "map instances bs = chunk_sizes ?n"
    and len: "\<forall>b \<in> set bs. length (vertices b) = ?M * 32"
    and sl: "concat (map slots bs) = map sprite_floats fs"
    and tx: "\<forall>b \<in> set bs. batch_texture b \<in> sprite_texture ` set fs"
    by (simp_all add: filled_def)
  show ?thesis
  proof (cases "?n mod ?M = 0")
    case True
    with inst have all: "map instances bs = replicate (?n div ?M) ?M"
      by (simp add: chunk_sizes_def)
    have full: "bs \<noteq> [] \<Longrightarrow> instances (last bs) = ?M"
    proof -
      assume ne: "bs \<noteq> []"
      then have "instances (last bs) = last (map instances bs)" by (simp add: last_map)
      also have "\<dots> = ?M" using all ne by (cases "?n div ?M") auto
      finally show ?thesis .
    qed
    then have push: "push_sprite s bs = bs @ [write_vertices (new_batch (sprite_texture s)) s]"
      by (auto simp add: push_sprite_def Let_def)
    from True max_gt_1 have m: "Suc ?n mod ?M = 1" and d: "Suc ?n div ?M = ?n div ?M"
      by (simp_all add: mod_Suc div_Suc)
    have "map instances (push_sprite s bs) = chunk_sizes (Suc ?n)"
      using all m d by (simp add: push chunk_sizes_def instances_new_batch)
    moreover have "\<forall>b \<in> set (push_sprite s bs). length (vertices b) = ?M * 32"
      using len by (simp add: push length_vertices_new_batch)
    moreover have "concat (map slots (push_sprite s bs)) = map sprite_floats (fs @ [s])"
      using sl max_gt_1
      by (simp add: push slots_write_vertices length_vertices_new_batch
          instances_new_batch slots_new_batch)
    moreover have "\<forall>b \<in> set (push_sprite s bs).
        batch_texture b \<in> sprite_texture ` set (fs @ [s])"
      using tx by (auto simp add: push batch_texture_new_batch)
    ultimately show ?thesis by (simp add: filled_def)
  next
    case False
    with inst have all: "map instances bs = replicate (?n div ?M) ?M @ [?n mod ?M]"
      by (simp add: chunk_sizes_def)
    then have ne: "bs \<noteq> []" by auto
    then have "instances (last bs) = last (map instances bs)" by (simp add: last_map)
    with all have lastn: "instances (last bs) = ?n mod ?M" by simp
    have "0 < ?M" using max_gt_1 by simp
    then have lt: "?n mod ?M < ?M" by simp
    with lastn ne have push: "push_sprite s bs = butlast bs @ [write_vertices (last bs) s]"
      by (simp add: push_sprite_def)
    have "map instances (butlast bs) = butlast (map instances bs)"
      by (simp add: map_butlast)
    with all have bl: "map instances (butlast bs) = replicate (?n div ?M) ?M"
      by simp
    have "map instances (push_sprite s bs) = chunk_sizes (Suc ?n)"
      using bl lastn False
      by (simp add: push chunk_sizes_def mod_Suc div_Suc replicate_append_same)
    moreover have "\<forall>b \<in> set (push_sprite s bs). length (vertices b) = ?M * 32"
      using len ne by (auto simp add: push dest: in_set_butlastD)
    moreover have "concat (map slots (push_sprite s bs)) = map sprite_floats (fs @ [s])"
    proof -
      from len ne have "length (vertices (last bs)) = ?M * 32" by simp
      with lastn lt have room: "instances (last bs) * 32 + 32 \<le> length (vertices (last bs))"
        by simp
      have "concat (map slots (butlast bs @ [last bs])) = map sprite_floats fs"
        using sl ne by simp
      then show ?thesis
        by (simp add: push slots_write_vertices [OF room])
    qed
    moreover have "\<forall>b \<in> set (push_sprite s bs).
        batch_texture b \<in> sprite_texture ` set (fs @ [s])"
      using tx ne by (auto simp add: push dest: in_set_butlastD)
    ultimately show ?thesis by (simp add: filled_def)
  qed
qed

lemma filled_fold_push_sprite: "filled (fold push_sprite fs []) fs"
  by (induction fs rule: rev_induct) (simp_all add: filled_Nil filled_push_sprite)

lemma batches_of_Nil: "batches_of [] t = []"
  by (simp add: batches_of_def)

lemma filled_batches_of:
  "filled (batches_of (fold add_sprite ss []) t) (with_texture t ss)"
  by (simp add: batches_of_fold_add_sprite batches_of_Nil filled_fold_push_sprite)

lemma batching_fold:
  "fold batch_sprite ss (st, bm)
   = (fold (\<lambda>s. register_texture (sprite_texture s)) ss st, fold add_sprite ss bm)"
  by (induction ss arbitrary: st bm) (simp_all add: batch_sprite_def)

lemma snd_batching: "snd (batching st ss) = fold add_sprite ss []"
  by (simp add: batching_def batching_fold)

lemma fst_batching:
  "fst (batching st ss) = fold (\<lambda>s. register_texture (sprite_texture s)) ss st"
  by (simp add: batching_def batching_fold)

lemma first_encounter_snoc:
  "first_encounter (xs @ [x])
   = (if x \<in> set xs then first_encounter xs else first_encounter xs @ [x])"
  by (simp add: first_encounter_def)

lemma set_first_encounter [simp]: "set (first_encounter xs) = set xs"
  by (simp add: first_encounter_def)

lemma distinct_first_encounter [simp]: "distinct (first_encounter xs)"
  by (simp add: first_encounter_def)

lemma keys_add_sprite:
  "map fst (add_sprite s bm)
   = (if sprite_texture s \<in> set (map fst bm) then map fst bm
      else map fst bm @ [sprite_texture s])"
  by (simp add: add_sprite_push update_keys)

lemma keys_fold_add_sprite:
  "map fst (fold add_sprite ss []) = first_encounter (map sprite_texture ss)"
  by (induction ss rule: rev_induct)
    (simp_all add: keys_add_sprite first_encounter_snoc first_encounter_def)

lemma distinct_keys_fold_add_sprite: "distinct (map fst (fold add_sprite ss []))"
  by (simp add: keys_fold_add_sprite)

lemma values_by_keys:
  "distinct (map fst bm) \<Longrightarrow> map snd bm = map (batches_of bm) (map fst bm)"
proof (induction bm)
  case Nil
  then show ?case by simp
next
  case (Cons p bm)
  obtain k v where p: "p = (k, v)" by (cases p)
  from Cons.prems p have k: "k \<notin> fst ` set bm" and d: "distinct (map fst bm)" by auto
  have "map (batches_of ((k, v) # bm)) (map fst bm) = map (batches_of bm) (map fst bm)"
    using k by (intro map_cong) (auto simp add: batches_of_def)
  with Cons.IH [OF d] show ?case by (simp add: p batches_of_def)
qed

lemma groups_fold_add_sprite:
  "map snd (fold add_sprite ss [])
   = map (batches_of (fold add_sprite ss [])) (first_encounter (map sprite_texture ss))"
  using values_by_keys [OF distinct_keys_fold_add_sprite, of ss]
  by (simp add: keys_fold_add_sprite)

lemma draw_calls_append [simp]: "draw_calls (xs @ ys) = draw_calls xs @ draw_calls ys"
  by (simp add: draw_calls_def)

lemma texture_binds_append [simp]:
  "texture_binds (xs @ ys) = texture_binds xs @ texture_binds ys"
  by (simp add: texture_binds_def)

lemma acquire_cache [simp]:
  "textureBindGroups (snd (acquire_vertex_buffer st)) = textureBindGroups st"
  by (simp add: acquire_vertex_buffer_def vertexBufferAlloc_def Let_def split: list.splits)

lemma acquire_created [simp]:
  "bind_groups_created (device (snd (acquire_vertex_buffer st)))
   = bind_groups_created (device st)"
  by (simp add: acquire_vertex_buffer_def vertexBufferAlloc_def Let_def split: list.splits)

lemma acquire_submitted [simp]:
  "submitted (device (snd (acquire_vertex_buffer st))) = submitted (device st)"
  by (simp add: acquire_vertex_buffer_def vertexBufferAlloc_def Let_def split: list.splits)

lemma acquire_empty:
  "vertexBuffers st = [] \<Longrightarrow>
     fst (acquire_vertex_buffer st) = vertex_buffers_allocated (device st)
     \<and> vertexBuffers (snd (acquire_vertex_buffer st)) = []
     \<and> vertex_buffers_allocated (device (snd (acquire_vertex_buffer st)))
       = Suc (vertex_buffers_allocated (device st))"
  by (simp add: acquire_vertex_buffer_def vertexBufferAlloc_def Let_def)

lemma acquire_nonempty:
  "vertexBuffers st \<noteq> [] \<Longrightarrow>
     fst (acquire_vertex_buffer st) = last (vertexBuffers st)
     \<and> vertexBuffers (snd (acquire_vertex_buffer st)) = butlast (vertexBuffers st)
     \<and> vertex_buffers_allocated (device (snd (acquire_vertex_buffer st)))
       = vertex_buffers_allocated (device st)"
  by (simp add: acquire_vertex_buffer_def split: list.splits)

lemma draw_batch_Some:
  assumes "map_of (textureBindGroups st) (batch_texture b) = Some g"
  shows "draw_batch b (st, used, pass)
         = Inr ((snd (acquire_vertex_buffer st))
                  \<lparr>device := writeBuffer (device (snd (acquire_vertex_buffer st)))
                               (fst (acquire_vertex_buffer st)) (vertices b)\<rparr>,
                used @ [fst (acquire_vertex_buffer st)],
                pass @ block (fst (acquire_vertex_buffer st)) g b)"
proof -
  obtain vb st1 where acq: "acquire_vertex_buffer st = (vb, st1)"
    by (cases "acquire_vertex_buffer st")
  from acquire_cache [of st] have "textureBindGroups st1 = textureBindGroups st"
    by (simp add: acq)
  with assms show ?thesis
    by (simp add: draw_batch_def Let_def block_def acq)
qed

lemma draw_batch_drawn_from:
  assumes "map_of (textureBindGroups st) (batch_texture b) = Some g"
  shows "\<exists>ds'. draw_batch b (st, used, pass) = Inr ds' \<and> drawn_from [b] (st, used, pass) ds'"
proof (cases "vertexBuffers st = []")
  case True
  from acquire_empty [OF True] show ?thesis
    by (simp add: draw_batch_Some [OF assms] drawn_from_def writeBuffer_def True block_def
        draw_calls_def texture_binds_def assms)
next
  case False
  have "mset (butlast (vertexBuffers st) @ [last (vertexBuffers st)])
        = mset (vertexBuffers st)"
    using False by simp
  then have "add_mset (last (vertexBuffers st)) (mset (butlast (vertexBuffers st)))
        = mset (vertexBuffers st)"
    by simp
  then show ?thesis
    using acquire_nonempty [OF False] False
    by (simp add: draw_batch_Some [OF assms] drawn_from_def writeBuffer_def block_def
        draw_calls_def texture_binds_def assms Suc_le_eq)
qed

lemma drawn_from_Nil: "drawn_from [] ds ds"
  by (cases ds) (simp add: drawn_from_def)

lemma drawn_from_trans:
  assumes "drawn_from xs ds ds1" and "drawn_from ys ds1 ds2"
  shows "drawn_from (xs @ ys) ds ds2"
proof -
  obtain st used pass where ds: "ds = (st, used, pass)" by (cases ds)
  obtain st1 used1 pass1 where ds1: "ds1 = (st1, used1, pass1)" by (cases ds1)
  obtain st2 used2 pass2 where ds2: "ds2 = (st2, used2, pass2)" by (cases ds2)
  let ?a = "vertex_buffers_allocated (device st)"
  let ?a1 = "vertex_buffers_allocated (device st1)"
  let ?a2 = "vertex_buffers_allocated (device st2)"
  from assms have a1: "?a1 = ?a + (length xs - length (vertexBuffers st))"
    and a2: "?a2 = ?a1 + (length ys - length (vertexBuffers st1))"
    and l1: "length (vertexBuffers st1) = length (vertexBuffers st) - length xs"
    and l2: "length (vertexBuffers st2) = length (vertexBuffers st1) - length ys"
    and u1: "length used1 = length used + length xs"
    and u2: "length used2 = length used1 + length ys"
    and m1: "mset (vertexBuffers st1) + mset used1
             = mset (vertexBuffers st) + mset used + mset [?a ..< ?a1]"
    and m2: "mset (vertexBuffers st2) + mset used2
             = mset (vertexBuffers st1) + mset used1 + mset [?a1 ..< ?a2]"
    and c1: "textureBindGroups st1 = textureBindGroups st"
    and c2: "textureBindGroups st2 = textureBindGroups st1"
    and g1: "bind_groups_created (device st1) = bind_groups_created (device st)"
    and g2: "bind_groups_created (device st2) = bind_groups_created (device st1)"
    and s1: "submitted (device st1) = submitted (device st)"
    and s2: "submitted (device st2) = submitted (device st1)"
    and d1: "draw_calls pass1 = draw_calls pass @ map (\<lambda>b. 6 * instances b) xs"
    and d2: "draw_calls pass2 = draw_calls pass1 @ map (\<lambda>b. 6 * instances b) ys"
    and t1: "map Some (texture_binds pass1) = map Some (texture_binds pass)
               @ map (\<lambda>b. map_of (textureBindGroups st) (batch_texture b)) xs"
    and t2: "map Some (texture_binds pass2) = map Some (texture_binds pass1)
               @ map (\<lambda>b. map_of (textureBindGroups st1) (batch_texture b)) ys"
    by (simp_all add: drawn_from_def ds ds1 ds2)
  have a: "?a2 = ?a + (length (xs @ ys) - length (vertexBuffers st))"
    using a1 a2 l1 by simp
  have "?a \<le> ?a1" and "?a1 \<le> ?a2" using a1 a2 by simp_all
  then have "[?a ..< ?a2] = [?a ..< ?a1] @ [?a1 ..< ?a2]"
    by (metis le_Suc_ex upt_add_eq_append)
  then have m: "mset (vertexBuffers st2) + mset used2
             = mset (vertexBuffers st) + mset used + mset [?a ..< ?a2]"
    using m1 m2 by (simp add: ac_simps)
  show ?thesis
    unfolding drawn_from_def ds ds2 prod.case
    using a m l1 l2 u1 u2 c1 c2 g1 g2 s1 s2 d1 d2 t1 t2 by simp
qed

lemma draw_batches_append:
  "draw_batches (xs @ ys) ds
   = (case draw_batches xs ds of Inl e \<Rightarrow> Inl e | Inr ds' \<Rightarrow> draw_batches ys ds')"
  by (induction xs arbitrary: ds) (simp_all split: sum.splits)

lemma draw_groups_concat: "draw_groups gs ds = draw_batches (concat gs) ds"
  by (induction gs arbitrary: ds) (simp_all add: draw_batches_append split: sum.splits)

lemma draw_batches_drawn_from:
  assumes "\<forall>b \<in> set bs. batch_texture b \<in> fst ` set (textureBindGroups st)"
  shows "\<exists>ds'. draw_batches bs (st, used, pass) = Inr ds'
               \<and> drawn_from bs (st, used, pass) ds'"
  using assms
proof (induction bs arbitrary: st used pass)
  case Nil
  then show ?case by (simp add: drawn_from_Nil)
next
  case (Cons b bs)
  from Cons.prems have "map_of (textureBindGroups st) (batch_texture b) \<noteq> None"
    by (simp add: map_of_eq_None_iff)
  then obtain g where g: "map_of (textureBindGroups st) (batch_texture b) = Some g"
    by auto
  from draw_batch_drawn_from [OF g, of used pass]
  obtain st1 used1 pass1
    where step: "draw_batch b (st, used, pass) = Inr (st1, used1, pass1)"
      and d1: "drawn_from [b] (st, used, pass) (st1, used1, pass1)"
    by (metis prod_cases3)
  from d1 have "textureBindGroups st1 = textureBindGroups st"
    by (simp add: drawn_from_def)
  with Cons.prems have "\<forall>b \<in> set bs. batch_texture b \<in> fst ` set (textureBindGroups st1)"
    by simp
  from Cons.IH [OF this, of used1 pass1]
  obtain ds' where rest: "draw_batches bs (st1, used1, pass1) = Inr ds'"
    and d2: "drawn_from bs (st1, used1, pass1) ds'"
    by auto
  from drawn_from_trans [OF d1 d2] step rest show ?case by simp
qed

lemma register_pool [simp]:
  "vertexBuffers (register_texture t st) = vertexBuffers st"
  by (simp add: register_texture_def createBindGroup_def Let_def split: option.splits)

lemma register_allocated [simp]:
  "vertex_buffers_allocated (device (register_texture t st))
   = vertex_buffers_allocated (device st)"
  by (simp add: register_texture_def createBindGroup_def Let_def split: option.splits)

lemma register_submitted [simp]:
  "submitted (device (register_texture t st)) = submitted (device st)"
  by (simp add: register_texture_def createBindGroup_def Let_def split: option.splits)

lemma map_of_Some_key: "map_of al k = Some v \<Longrightarrow> k \<in> fst ` set al"
  by (metis map_of_eq_None_iff option.distinct(1))

lemma register_keys:
  "map fst (textureBindGroups (register_texture t st))
   = (if t \<in> set (map fst (textureBindGroups st)) then map fst (textureBindGroups st)
      else map fst (textureBindGroups st) @ [t])"
  by (auto simp add: register_texture_def createBindGroup_def Let_def update_keys
      map_of_eq_None_iff split: option.splits dest: map_of_Some_key)

lemma register_created:
  "bind_groups_created (device (register_texture t st))
   = bind_groups_created (device st)
     @ (if t \<in> set (map fst (textureBindGroups st)) then []
        else [TextureBindGroup (length (bind_groups_created (device st))) t])"
  by (auto simp add: register_texture_def createBindGroup_def Let_def
      map_of_eq_None_iff split: option.splits dest: map_of_Some_key)

lemma register_lookup:
  "map_of (textureBindGroups (register_texture t st)) k
   = (if k = t \<and> t \<notin> set (map fst (textureBindGroups st))
      then Some (TextureBindGroup (length (bind_groups_created (device st))) t)
      else map_of (textureBindGroups st) k)"
  by (auto simp add: register_texture_def createBindGroup_def Let_def update_conv'
      map_of_eq_None_iff split: option.splits dest: map_of_Some_key)

lemma register_all_Nil [simp]: "register_all [] st = st"
  by (simp add: register_all_def)

lemma register_all_snoc:
  "register_all (ss @ [s]) st = register_texture (sprite_texture s) (register_all ss st)"
  by (simp add: register_all_def)

lemma register_all_pool [simp]: "vertexBuffers (register_all ss st) = vertexBuffers st"
  by (induction ss rule: rev_induct) (simp_all add: register_all_snoc)

lemma register_all_allocated [simp]:
  "vertex_buffers_allocated (device (register_all ss st))
   = vertex_buffers_allocated (device st)"
  by (induction ss rule: rev_induct) (simp_all add: register_all_snoc)

lemma register_all_submitted [simp]:
  "submitted (device (register_all ss st)) = submitted (device st)"
  by (induction ss rule: rev_induct) (simp_all add: register_all_snoc)

lemma register_all_keys_set:
  "set (map fst (textureBindGroups (register_all ss st)))
   = set (map fst (textureBindGroups st)) \<union> sprite_texture ` set ss"
  by (induction ss rule: rev_induct) (auto simp add: register_all_snoc register_keys)

lemma register_all_keeps:
  "map_of (textureBindGroups st) k = Some g \<Longrightarrow>
   map_of (textureBindGroups (register_all ss st)) k = Some g"
proof (induction ss rule: rev_induct)
  case Nil
  then show ?case by simp
next
  case (snoc s ss)
  then have "map_of (textureBindGroups (register_all ss st)) k = Some g" by simp
  moreover from this have "k \<in> set (map fst (textureBindGroups (register_all ss st)))"
    by (auto dest: map_of_Some_key)
  ultimately show ?case by (simp add: register_all_snoc register_lookup, blast)
qed

lemma fst_batching_register: "fst (batching st ss) = register_all ss st"
  by (simp add: fst_batching register_all_def)

lemma snd_batching_frame: "concat (map snd (snd (batching st ss))) = frame_batches ss"
  by (simp add: snd_batching frame_batches_def)

lemma frame_batches_textures:
  assumes "b \<in> set (frame_batches ss)"
  shows "batch_texture b \<in> sprite_texture ` set ss"
proof -
  let ?bm = "fold add_sprite ss []"
  from assms obtain p where p: "p \<in> set ?bm" and b: "b \<in> set (snd p)"
    by (auto simp add: frame_batches_def)
  obtain t bs where tb: "p = (t, bs)" by (cases p)
  from p tb distinct_keys_fold_add_sprite [of ss] have "map_of ?bm t = Some bs"
    by simp
  then have "batches_of ?bm t = bs" by (simp add: batches_of_def)
  with filled_batches_of [of ss t] b tb
  have "batch_texture b \<in> sprite_texture ` set (with_texture t ss)"
    by (simp add: filled_def)
  then obtain x where "x \<in> set ss" and "batch_texture b = sprite_texture x"
    by (auto simp add: with_texture_def)
  then show ?thesis by (rule_tac x = x in image_eqI)
qed

lemma render_rendered: "\<exists>st'. render st ss = Inr st' \<and> rendered st ss st'"
proof -
  let ?st1 = "register_all ss st"
  have b: "batching st ss = (?st1, snd (batching st ss))"
    by (metis fst_batching_register prod.collapse)
  have groups: "concat (map snd (snd (batching st ss))) = frame_batches ss"
    by (rule snd_batching_frame)
  have "\<forall>b \<in> set (frame_batches ss). batch_texture b \<in> fst ` set (textureBindGroups ?st1)"
    using frame_batches_textures [of _ ss] register_all_keys_set [of ss st] by auto
  from draw_batches_drawn_from [OF this, of "[]" "[BeginRenderPass]"]
  obtain st2 used pass
    where run: "draw_batches (frame_batches ss) (?st1, [], [BeginRenderPass])
                = Inr (st2, used, pass)"
      and d: "drawn_from (frame_batches ss) (?st1, [], [BeginRenderPass]) (st2, used, pass)"
    by (metis prod_cases3)
  let ?st' = "st2\<lparr>device := submit (device st2) (pass @ [EndPass]),
                  vertexBuffers := vertexBuffers st2 @ used\<rparr>"
  have r: "render st ss = Inr ?st'"
    by (subst render_def, subst b) (simp add: draw_groups_concat groups run)
  from d have "rendered st ss ?st'"
    by (simp add: rendered_def drawn_from_def submit_def draw_calls_def texture_binds_def)
  with r show ?thesis by blast
qed

lemma length_chunk_sizes:
  "length (chunk_sizes n)
   = nat \<lceil>real n / real MAX_SPRITES_PER_BATCH\<rceil>"
proof -
  let ?M = MAX_SPRITES_PER_BATCH
  let ?q = "n div ?M"
  let ?r = "n mod ?M"
  have M: "0 < real ?M" using max_gt_1 by simp
  have n: "real n = real ?q * real ?M + real ?r"
    by (metis div_mult_mod_eq of_nat_add of_nat_mult)
  show ?thesis
  proof (cases "?r = 0")
    case True
    with n M have "real n / real ?M = real ?q" by simp
    then have "\<lceil>real n / real ?M\<rceil> = int ?q" by simp
    with True show ?thesis by (simp add: chunk_sizes_def)
  next
    case False
    have "?r < ?M" using max_gt_1 by simp
    then have r: "real ?r < real ?M" by simp
    from False have r0: "0 < real ?r" by simp
    have lo: "of_int (int ?q) < real n / real ?M"
      using M n r0 by (simp add: pos_less_divide_eq)
    have hi: "real n / real ?M \<le> of_int (int ?q) + 1"
      using M n r by (simp add: pos_divide_le_eq algebra_simps)
    from ceiling_eq [OF lo hi] have "\<lceil>real n / real ?M\<rceil> = int ?q + 1" .
    with False show ?thesis by (simp add: chunk_sizes_def)
  qed
qed

lemma length_batches_of:
  "length (batches_of (fold add_sprite ss []) t)
   = nat \<lceil>real (length (with_texture t ss)) / real MAX_SPRITES_PER_BATCH\<rceil>"
proof -
  from filled_batches_of [of ss t]
  have "map instances (batches_of (fold add_sprite ss []) t)
        = chunk_sizes (length (with_texture t ss))"
    by (simp add: filled_def)
  then have "length (batches_of (fold add_sprite ss []) t)
        = length (chunk_sizes (length (with_texture t ss)))"
    by (metis length_map)
  then show ?thesis by (simp add: length_chunk_sizes)
qed

lemma frame_batches_by_texture:
  "frame_batches ss
   = concat (map (batches_of (fold add_sprite ss []))
               (first_encounter (map sprite_texture ss)))"
  by (simp add: frame_batches_def groups_fold_add_sprite)

lemma length_frame_batches:
  "length (frame_batches ss)
   = (\<Sum>t \<in> sprite_texture ` set ss.
        nat \<lceil>real (length (with_texture t ss)) / real MAX_SPRITES_PER_BATCH\<rceil>)"
proof -
  let ?f = "\<lambda>t. nat \<lceil>real (length (with_texture t ss)) / real MAX_SPRITES_PER_BATCH\<rceil>"
  let ?ks = "first_encounter (map sprite_texture ss)"
  have "length (frame_batches ss) = sum_list (map ?f ?ks)"
    by (simp add: frame_batches_by_texture length_concat comp_def length_batches_of)
  also have "\<dots> = sum ?f (set ?ks)"
    by (rule sum_list_distinct_conv_sum_set) simp
  finally show ?thesis by simp
qed

lemma batch_texture_batches_of:
  assumes "b \<in> set (batches_of (fold add_sprite ss []) t)"
  shows "batch_texture b = t"
proof -
  from filled_batches_of [of ss t] assms
  have "batch_texture b \<in> sprite_texture ` set (with_texture t ss)"
    by (simp add: filled_def)
  then show ?thesis by (auto simp add: with_texture_def)
qed

lemma room_for_sprite:
  assumes "instances b < MAX_SPRITES_PER_BATCH"
    and "length (vertices b) = MAX_SPRITES_PER_BATCH * FLOATS_PER_SPRITE"
  shows "instances b * 32 + 32 \<le> length (vertices b)"
  using assms by (simp add: floats_per_sprite)

lemma written_positions:
  assumes "instances b < MAX_SPRITES_PER_BATCH"
    and "length (vertices b) = MAX_SPRITES_PER_BATCH * FLOATS_PER_SPRITE"
  shows "[(vertices (write_vertices b s) ! (0 + instances b * FLOATS_PER_SPRITE),
           vertices (write_vertices b s) ! (1 + instances b * FLOATS_PER_SPRITE)),
          (vertices (write_vertices b s) ! (8 + instances b * FLOATS_PER_SPRITE),
           vertices (write_vertices b s) ! (9 + instances b * FLOATS_PER_SPRITE)),
          (vertices (write_vertices b s) ! (16 + instances b * FLOATS_PER_SPRITE),
           vertices (write_vertices b s) ! (17 + instances b * FLOATS_PER_SPRITE)),
          (vertices (write_vertices b s) ! (24 + instances b * FLOATS_PER_SPRITE),
           vertices (write_vertices b s) ! (25 + instances b * FLOATS_PER_SPRITE))]
         = (case sprite_corners s of (p0, p1, p2, p3) \<Rightarrow>
              [fround2 p0, fround2 p1, fround2 p2, fround2 p3])"
proof -
  note r = room_for_sprite [OF assms]
  have "vertices (write_vertices b s) ! (0 + instances b * 32) = sprite_floats s ! 0"
    "vertices (write_vertices b s) ! (1 + instances b * 32) = sprite_floats s ! 1"
    "vertices (write_vertices b s) ! (8 + instances b * 32) = sprite_floats s ! 8"
    "vertices (write_vertices b s) ! (9 + instances b * 32) = sprite_floats s ! 9"
    "vertices (write_vertices b s) ! (16 + instances b * 32) = sprite_floats s ! 16"
    "vertices (write_vertices b s) ! (17 + instances b * 32) = sprite_floats s ! 17"
    "vertices (write_vertices b s) ! (24 + instances b * 32) = sprite_floats s ! 24"
    "vertices (write_vertices b s) ! (25 + instances b * 32) = sprite_floats s ! 25"
    by (rule nth_write_vertices [OF r], simp)+
  then show ?thesis
    by (simp add: floats_per_sprite sprite_floats_def fround2_def split: prod.splits)
qed

lemma written_uvs:
  assumes "instances b < MAX_SPRITES_PER_BATCH"
    and "length (vertices b) = MAX_SPRITES_PER_BATCH * FLOATS_PER_SPRITE"
  shows "[(vertices (write_vertices b s) ! (2 + instances b * FLOATS_PER_SPRITE),
           vertices (write_vertices b s) ! (3 + instances b * FLOATS_PER_SPRITE)),
          (vertices (write_vertices b s) ! (10 + instances b * FLOATS_PER_SPRITE),
           vertices (write_vertices b s) ! (11 + instances b * FLOATS_PER_SPRITE)),
          (vertices (write_vertices b s) ! (18 + instances b * FLOATS_PER_SPRITE),
           vertices (write_vertices b s) ! (19 + instances b * FLOATS_PER_SPRITE)),
          (vertices (write_vertices b s) ! (26 + instances b * FLOATS_PER_SPRITE),
           vertices (write_vertices b s) ! (27 + instances b * FLOATS_PER_SPRITE))]
         = [(fround (fst (sprite_u s)), fround (fst (sprite_v s))),
            (fround (snd (sprite_u s)), fround (fst (sprite_v s))),
            (fround (snd (sprite_u s)), fround (snd (sprite_v s))),
            (fround (fst (sprite_u s)), fround (snd (sprite_v s)))]"
proof -
  note r = room_for_sprite [OF assms]
  have "vertices (write_vertices b s) ! (2 + instances b * 32) = sprite_floats s ! 2"
    "vertices (write_vertices b s) ! (3 + instances b * 32) = sprite_floats s ! 3"
    "vertices (write_vertices b s) ! (10 + instances b * 32) = sprite_floats s ! 10"
    "vertices (write_vertices b s) ! (11 + instances b * 32) = sprite_floats s ! 11"
    "vertices (write_vertices b s) ! (18 + instances b * 32) = sprite_floats s ! 18"
    "vertices (write_vertices b s) ! (19 + instances b * 32) = sprite_floats s ! 19"
    "vertices (write_vertices b s) ! (26 + instances b * 32) = sprite_floats s ! 26"
    "vertices (write_vertices b s) ! (27 + instances b * 32) = sprite_floats s ! 27"
    by (rule nth_write_vertices [OF r], simp)+
  then show ?thesis
    by (simp add: floats_per_sprite sprite_floats_def split: prod.splits)
qed

lemma new_batch_has_room:
  "instances (new_batch t) < MAX_SPRITES_PER_BATCH
   \<and> length (vertices (new_batch t)) = MAX_SPRITES_PER_BATCH * FLOATS_PER_SPRITE"
  by (simp add: new_batch_def empty_vertices_def MAX_SPRITES_PER_BATCH_def)

lemma update_new_key: "k \<notin> fst ` set al \<Longrightarrow> AList.update k v al = al @ [(k, v)]"
  by (induction al) auto

lemma register_cache:
  "textureBindGroups (register_texture t st)
   = textureBindGroups st
     @ (if t \<in> set (map fst (textureBindGroups st)) then []
        else [(t, TextureBindGroup (length (bind_groups_created (device st))) t)])"
  by (auto simp add: register_texture_def createBindGroup_def Let_def update_new_key
      map_of_eq_None_iff split: option.splits dest: map_of_Some_key)

lemma register_all_cache_grows:
  "\<exists>new. textureBindGroups (register_all ss st) = textureBindGroups st @ new"
proof (induction ss rule: rev_induct)
  case Nil
  then show ?case by simp
next
  case (snoc s ss)
  then obtain new where "textureBindGroups (register_all ss st) = textureBindGroups st @ new"
    by blast
  then show ?case by (simp add: register_all_snoc register_cache)
qed

lemma created_textures_append [simp]:
  "created_textures (xs @ ys) = created_textures xs @ created_textures ys"
  by (simp add: created_textures_def)

lemma register_all_keys:
  assumes "map fst (textureBindGroups st) = first_encounter xs"
  shows "map fst (textureBindGroups (register_all ss st))
         = first_encounter (xs @ map sprite_texture ss)"
proof (induction ss rule: rev_induct)
  case Nil
  then show ?case by (simp add: assms)
next
  case (snoc s ss)
  have "first_encounter ((xs @ map sprite_texture ss) @ [sprite_texture s])
        = (if sprite_texture s \<in> set (xs @ map sprite_texture ss)
           then first_encounter (xs @ map sprite_texture ss)
           else first_encounter (xs @ map sprite_texture ss) @ [sprite_texture s])"
    by (rule first_encounter_snoc)
  moreover have "set (first_encounter (xs @ map sprite_texture ss))
                 = set (xs @ map sprite_texture ss)"
    by (rule set_first_encounter)
  ultimately show ?case
    using snoc by (simp add: register_all_snoc register_keys)
qed

lemma register_all_created:
  assumes "created_textures (bind_groups_created (device st))
           = c0 @ map fst (textureBindGroups st)"
  shows "created_textures (bind_groups_created (device (register_all ss st)))
         = c0 @ map fst (textureBindGroups (register_all ss st))"
proof (induction ss rule: rev_induct)
  case Nil
  then show ?case by (simp add: assms)
next
  case (snoc s ss)
  then show ?case
    by (simp add: register_all_snoc register_keys register_created created_textures_def)
qed

lemma rendered_cache_grows:
  assumes "rendered st ss st'"
  shows "\<exists>new. textureBindGroups st' = textureBindGroups st @ new"
  using assms register_all_cache_grows [of ss st] by (simp add: rendered_def)

lemma render_frames_ok:
  "\<exists>st' new. render_frames st frames = Inr st'
     \<and> textureBindGroups st' = textureBindGroups st @ new"
proof (induction frames arbitrary: st)
  case Nil
  then show ?case by simp
next
  case (Cons ss frames)
  from render_rendered [of st ss] obtain st1
    where r: "render st ss = Inr st1" and d: "rendered st ss st1" by blast
  from rendered_cache_grows [OF d] obtain new1
    where n1: "textureBindGroups st1 = textureBindGroups st @ new1" by blast
  from Cons.IH [of st1] obtain st' new2
    where r2: "render_frames st1 frames = Inr st'"
      and n2: "textureBindGroups st' = textureBindGroups st1 @ new2" by blast
  from r r2 n1 n2 show ?case by simp
qed

lemma render_frames_created:
  assumes "map fst (textureBindGroups st) = first_encounter xs"
    and "created_textures (bind_groups_created (device st))
         = c0 @ map fst (textureBindGroups st)"
  shows "\<exists>st'. render_frames st frames = Inr st'
     \<and> map fst (textureBindGroups st')
         = first_encounter (xs @ map sprite_texture (concat frames))
     \<and> created_textures (bind_groups_created (device st'))
         = c0 @ map fst (textureBindGroups st')"
  using assms
proof (induction frames arbitrary: st xs)
  case Nil
  then show ?case by simp
next
  case (Cons ss frames)
  from render_rendered [of st ss] obtain st1
    where r: "render st ss = Inr st1" and d: "rendered st ss st1" by blast
  from d have k: "map fst (textureBindGroups st1)
                  = first_encounter (xs @ map sprite_texture ss)"
    by (simp add: rendered_def register_all_keys [OF Cons.prems(1)])
  from d have c: "created_textures (bind_groups_created (device st1))
                  = c0 @ map fst (textureBindGroups st1)"
    by (simp add: rendered_def register_all_created [OF Cons.prems(2)])
  from Cons.IH [OF k c] r show ?case by simp
qed

lemma pipeline_cache: "textureBindGroups (pipeline dev) = []"
  by (simp add: pipeline_def vertexBufferAlloc_def Let_def)

lemma pipeline_created:
  "bind_groups_created (device (pipeline dev))
   = bind_groups_created dev @ [ProjectionViewMatrixBindGroup]"
  by (simp add: pipeline_def vertexBufferAlloc_def Let_def)

lemma pipeline_pool:
  "vertexBuffers (pipeline dev) = [vertex_buffers_allocated dev]
   \<and> vertex_buffers_allocated (device (pipeline dev)) = Suc (vertex_buffers_allocated dev)"
  by (simp add: pipeline_def vertexBufferAlloc_def Let_def)

lemma first_encounter_Nil [simp]: "first_encounter [] = []"
  by (simp add: first_encounter_def)

lemma rendered_pool_length:
  assumes "rendered st ss st'"
  shows "length (vertexBuffers st')
         = max (length (vertexBuffers st)) (length (frame_batches ss))"
proof -
  let ?a = "vertex_buffers_allocated (device st)"
  let ?a' = "vertex_buffers_allocated (device st')"
  from assms have a: "?a' = ?a + (length (frame_batches ss) - length (vertexBuffers st))"
    and m: "mset (vertexBuffers st') = mset (vertexBuffers st) + mset [?a ..< ?a']"
    by (simp_all add: rendered_def)
  from m have "size (mset (vertexBuffers st'))
               = size (mset (vertexBuffers st) + mset [?a ..< ?a'])"
    by simp
  then have "length (vertexBuffers st') = length (vertexBuffers st) + (?a' - ?a)"
    by simp
  with a show ?thesis by simp
qed

lemma render_frames_steady:
  assumes "length (frame_batches ss) \<le> length (vertexBuffers st)"
  shows "\<exists>st'. render_frames st (replicate n ss) = Inr st'
     \<and> vertex_buffers_allocated (device st') = vertex_buffers_allocated (device st)
     \<and> length (vertexBuffers st') = length (vertexBuffers st)"
  using assms
proof (induction n arbitrary: st)
  case 0
  then show ?case by simp
next
  case (Suc n)
  from render_rendered [of st ss] obtain st1
    where r: "render st ss = Inr st1" and d: "rendered st ss st1" by blast
  from d Suc.prems have a: "vertex_buffers_allocated (device st1)
                            = vertex_buffers_allocated (device st)"
    by (simp add: rendered_def)
  from rendered_pool_length [OF d] Suc.prems
  have l: "length (vertexBuffers st1) = length (vertexBuffers st)" by simp
  with Suc.prems have "length (frame_batches ss) \<le> length (vertexBuffers st1)" by simp
  from Suc.IH [OF this] r a l show ?case by simp
qed

lemma render_frames_same:
  assumes "0 < n"
  shows "\<exists>st1 st'. render st ss = Inr st1
     \<and> render_frames st (replicate n ss) = Inr st'
     \<and> vertex_buffers_allocated (device st') = vertex_buffers_allocated (device st1)
     \<and> vertex_buffers_allocated (device st1)
         = vertex_buffers_allocated (device st)
           + (length (frame_batches ss) - length (vertexBuffers st))
     \<and> length (vertexBuffers st')
         = max (length (vertexBuffers st)) (length (frame_batches ss))"
proof -
  from assms obtain k where n: "n = Suc k" by (cases n) auto
  from render_rendered [of st ss] obtain st1
    where r: "render st ss = Inr st1" and d: "rendered st ss st1" by blast
  from d have a: "vertex_buffers_allocated (device st1)
                  = vertex_buffers_allocated (device st)
                    + (length (frame_batches ss) - length (vertexBuffers st))"
    by (simp add: rendered_def)
  note l = rendered_pool_length [OF d]
  then have "length (frame_batches ss) \<le> length (vertexBuffers st1)" by simp
  from render_frames_steady [OF this, of k] obtain st'
    where r': "render_frames st1 (replicate k ss) = Inr st'"
      and a': "vertex_buffers_allocated (device st') = vertex_buffers_allocated (device st1)"
      and l': "length (vertexBuffers st') = length (vertexBuffers st1)"
    by blast
  from r r' a a' l l' show ?thesis by (simp add: n)
qed

lemma map_Some_eq: "map Some xs = map Some ys \<Longrightarrow> xs = ys"
  by (simp add: inj_map_eq_map [OF inj_Some])

lemma textures_frame_batches:
  "map batch_texture (frame_batches ss)
   = concat (map (\<lambda>t. replicate (length (batches_of (fold add_sprite ss []) t)) t)
               (first_encounter (map sprite_texture ss)))"
proof -
  have "map batch_texture (batches_of (fold add_sprite ss []) t)
        = replicate (length (batches_of (fold add_sprite ss []) t)) t" for t
  proof -
    have "map batch_texture (batches_of (fold add_sprite ss []) t)
          = map (\<lambda>b. t) (batches_of (fold add_sprite ss []) t)"
      by (rule map_cong) (simp_all add: batch_texture_batches_of)
    then show ?thesis by (simp add: map_replicate_const)
  qed
  then show ?thesis
    by (simp add: frame_batches_by_texture map_concat comp_def)
qed

lemma instances_batches_of:
  "map instances (batches_of (fold add_sprite ss []) t)
   = chunk_sizes (length (with_texture t ss))"
  using filled_batches_of [of ss t] by (simp add: filled_def)

lemma interleaved_frame:
  assumes "sprite_texture a = tA" and "sprite_texture b = tB" and "sprite_texture c = tA"
    and "tA \<noteq> tB"
  shows "map instances (frame_batches [a, b, c]) = [2, 1]
         \<and> map batch_texture (frame_batches [a, b, c]) = [tA, tB]
         \<and> concat (map slots (batches_of (fold add_sprite [a, b, c] []) tA))
           = [sprite_floats a, sprite_floats c]"
proof -
  let ?bm = "fold add_sprite [a, b, c] []"
  have keys: "first_encounter (map sprite_texture [a, b, c]) = [tA, tB]"
    using assms by (simp add: first_encounter_def)
  have wa: "with_texture tA [a, b, c] = [a, c]" and wb: "with_texture tB [a, b, c] = [b]"
    using assms by (auto simp add: with_texture_def)
  have ia: "map instances (batches_of ?bm tA) = [2]"
    unfolding instances_batches_of wa
    by (simp add: chunk_sizes_def MAX_SPRITES_PER_BATCH_def)
  have ib: "map instances (batches_of ?bm tB) = [1]"
    unfolding instances_batches_of wb
    by (simp add: chunk_sizes_def MAX_SPRITES_PER_BATCH_def)
  from ia have la: "length (batches_of ?bm tA) = 1"
    by (metis length_map length_Cons list.size(3) One_nat_def)
  from ib have lb: "length (batches_of ?bm tB) = 1"
    by (metis length_map length_Cons list.size(3) One_nat_def)
  have fb: "frame_batches [a, b, c] = batches_of ?bm tA @ batches_of ?bm tB"
    unfolding frame_batches_by_texture keys by simp
  have "map instances (frame_batches [a, b, c]) = [2, 1]"
    unfolding fb using ia ib by simp
  moreover have "map batch_texture (frame_batches [a, b, c]) = [tA, tB]"
    unfolding textures_frame_batches keys using la lb by simp
  moreover have "concat (map slots (batches_of ?bm tA)) = [sprite_floats a, sprite_floats c]"
    using filled_batches_of [of "[a, b, c]" tA] by (simp add: filled_def wa)
  ultimately show ?thesis by simp
qed

lemma interleaved_cache:
  assumes "sprite_texture a = tA" and "sprite_texture b = tB" and "sprite_texture c = tA"
    and "tA \<noteq> tB"
  shows "textureBindGroups (register_all [a, b, c] (pipeline dev))
         = [(tA, TextureBindGroup (Suc (length (bind_groups_created dev))) tA),
            (tB, TextureBindGroup (Suc (Suc (length (bind_groups_created dev)))) tB)]"
  using assms
  by (simp add: register_all_def register_texture_def createBindGroup_def Let_def
      pipeline_def vertexBufferAlloc_def)

section \<open>The claims\<close>

text \<open>
  C1. For every sprite list (and every state of the closure) the render pass succeeds and
  submits one command buffer; its indexed draw calls are, in order, one per batch of the
  batch map with index count \<open>6 * instances\<close>; every texture has
  \<open>ceil (sprites with that texture / MAX_SPRITES_PER_BATCH)\<close> batches, and the number of
  draw calls is the sum of these numbers over the distinct textures of the list.
\<close>

theorem one_draw_call_per_batch:
  "\<exists>st' pass. render st sprites = Inr st'
     \<and> submitted (device st') = submitted (device st) @ [pass]
     \<and> draw_calls pass
         = map (\<lambda>b. 6 * instances b) (concat (map snd (snd (batching st sprites))))
     \<and> (\<forall>t. length (batches_of (snd (batching st sprites)) t)
              = nat \<lceil>real (length (with_texture t sprites))
                       / real MAX_SPRITES_PER_BATCH\<rceil>)
     \<and> length (draw_calls pass)
         = (\<Sum>t \<in> sprite_texture ` set sprites.
              nat \<lceil>real (length (with_texture t sprites))
                     / real MAX_SPRITES_PER_BATCH\<rceil>)"
proof -
  from render_rendered [of st sprites]
  obtain st' pass where r: "render st sprites = Inr st'"
    and s: "submitted (device st') = submitted (device st) @ [pass]"
    and d: "draw_calls pass = map (\<lambda>b. 6 * instances b) (frame_batches sprites)"
    by (auto simp add: rendered_def)
  from d have n: "length (draw_calls pass) = length (frame_batches sprites)" by simp
  have e: "concat (map snd (snd (batching st sprites))) = frame_batches sprites"
    by (rule snd_batching_frame)
  have c: "\<forall>t. length (batches_of (snd (batching st sprites)) t)
              = nat \<lceil>real (length (with_texture t sprites))
                       / real MAX_SPRITES_PER_BATCH\<rceil>"
    by (simp add: snd_batching length_batches_of)
  from r s d n c show ?thesis
    by (simp add: e length_frame_batches)
qed

text \<open>
  C2. For every sprite list and every texture, the slots of that texture's batches, read
  batch after batch and slot after slot, hold the vertex data of the sprites with that
  texture in the order of the input list, and all these batches carry that texture.
\<close>

theorem batcher_stable_per_texture:
  "concat (map slots (batches_of (snd (batching st sprites)) t))
     = map sprite_floats (with_texture t sprites)
   \<and> map batch_texture (batches_of (snd (batching st sprites)) t)
     = replicate (length (batches_of (snd (batching st sprites)) t)) t"
proof -
  let ?bs = "batches_of (fold add_sprite sprites []) t"
  from filled_batches_of [of sprites t]
  have "concat (map slots ?bs) = map sprite_floats (with_texture t sprites)"
    by (simp add: filled_def)
  moreover have "map batch_texture ?bs = map (\<lambda>b. t) ?bs"
    by (rule map_cong) (simp_all add: batch_texture_batches_of)
  ultimately show ?thesis by (simp add: snd_batching map_replicate_const)
qed

text \<open>
  C3. For every sprite list the bind groups set for the draw calls are, in order, the
  cache's entries of the distinct textures in the order of their first occurrence in the
  list, each repeated once per batch of that texture. In particular, for three sprites
  with the textures A, B, A (A and B different) rendered by a new pipeline, there are two
  draw calls: the first with the bind group of A and 12 indices, for the batch that holds
  the first and the third sprite, the second with the bind group of B and 6 indices.
\<close>

theorem drawn_in_first_encounter_order:
  "(\<exists>st' pass. render st sprites = Inr st'
      \<and> submitted (device st') = submitted (device st) @ [pass]
      \<and> map Some (texture_binds pass)
          = map (map_of (textureBindGroups st'))
              (concat (map (\<lambda>t. replicate
                                  (length (batches_of (snd (batching st sprites)) t)) t)
                         (first_encounter (map sprite_texture sprites)))))
   \<and> (sprite_texture a = tA \<and> sprite_texture b = tB \<and> sprite_texture c = tA
       \<and> tA \<noteq> tB \<longrightarrow>
       (\<exists>st' pass. render (pipeline dev) [a, b, c] = Inr st'
          \<and> submitted (device st') = submitted dev @ [pass]
          \<and> texture_binds pass
              = [TextureBindGroup (Suc (length (bind_groups_created dev))) tA,
                 TextureBindGroup (Suc (Suc (length (bind_groups_created dev)))) tB]
          \<and> draw_calls pass = [12, 6]
          \<and> concat (map slots (batches_of (snd (batching (pipeline dev) [a, b, c])) tA))
              = [sprite_floats a, sprite_floats c]))"
proof -
  have general: "\<exists>st' pass. render st sprites = Inr st'
      \<and> submitted (device st') = submitted (device st) @ [pass]
      \<and> map Some (texture_binds pass)
          = map (map_of (textureBindGroups st'))
              (concat (map (\<lambda>t. replicate
                                  (length (batches_of (snd (batching st sprites)) t)) t)
                         (first_encounter (map sprite_texture sprites))))"
  proof -
    from render_rendered [of st sprites]
    obtain st' pass where r: "render st sprites = Inr st'"
      and s: "submitted (device st') = submitted (device st) @ [pass]"
      and t: "map Some (texture_binds pass)
              = map (\<lambda>b. map_of (textureBindGroups st') (batch_texture b))
                  (frame_batches sprites)"
      by (auto simp add: rendered_def)
    have "map (\<lambda>b. map_of (textureBindGroups st') (batch_texture b)) (frame_batches sprites)
          = map (map_of (textureBindGroups st')) (map batch_texture (frame_batches sprites))"
      by simp
    with t have "map Some (texture_binds pass)
          = map (map_of (textureBindGroups st'))
              (concat (map (\<lambda>t. replicate
                                  (length (batches_of (fold add_sprite sprites []) t)) t)
                         (first_encounter (map sprite_texture sprites))))"
      by (simp only: textures_frame_batches)
    with r s show ?thesis by (auto simp add: snd_batching)
  qed
  have example: "\<exists>st' pass. render (pipeline dev) [a, b, c] = Inr st'
          \<and> submitted (device st') = submitted dev @ [pass]
          \<and> texture_binds pass
              = [TextureBindGroup (Suc (length (bind_groups_created dev))) tA,
                 TextureBindGroup (Suc (Suc (length (bind_groups_created dev)))) tB]
          \<and> draw_calls pass = [12, 6]
          \<and> concat (map slots (batches_of (snd (batching (pipeline dev) [a, b, c])) tA))
              = [sprite_floats a, sprite_floats c]"
    if h: "sprite_texture a = tA" "sprite_texture b = tB" "sprite_texture c = tA" "tA \<noteq> tB"
  proof -
    note f = interleaved_frame [OF h]
    note k = interleaved_cache [OF h, of dev]
    from render_rendered [of "pipeline dev" "[a, b, c]"]
    obtain st' pass where r: "render (pipeline dev) [a, b, c] = Inr st'"
      and s: "submitted (device st') = submitted (device (pipeline dev)) @ [pass]"
      and c: "textureBindGroups st' = textureBindGroups (register_all [a, b, c] (pipeline dev))"
      and d: "draw_calls pass = map (\<lambda>b. 6 * instances b) (frame_batches [a, b, c])"
      and t: "map Some (texture_binds pass)
              = map (\<lambda>b. map_of (textureBindGroups st') (batch_texture b))
                  (frame_batches [a, b, c])"
      by (auto simp add: rendered_def)
    have sd: "submitted (device (pipeline dev)) = submitted dev"
      by (simp add: pipeline_def vertexBufferAlloc_def Let_def)
    have "map (\<lambda>b. 6 * instances b) (frame_batches [a, b, c])
          = map (\<lambda>n. 6 * n) (map instances (frame_batches [a, b, c]))"
      by simp
    with d f have dc: "draw_calls pass = [12, 6]" by simp
    have "map (\<lambda>b. map_of (textureBindGroups st') (batch_texture b)) (frame_batches [a, b, c])
          = map (map_of (textureBindGroups st')) (map batch_texture (frame_batches [a, b, c]))"
      by simp
    with t f have "map Some (texture_binds pass)
          = map (map_of (textureBindGroups st')) [tA, tB]"
      by simp
    with c k h have "map Some (texture_binds pass)
          = map Some [TextureBindGroup (Suc (length (bind_groups_created dev))) tA,
                      TextureBindGroup (Suc (Suc (length (bind_groups_created dev)))) tB]"
      by simp
    from map_Some_eq [OF this] have tb: "texture_binds pass
          = [TextureBindGroup (Suc (length (bind_groups_created dev))) tA,
             TextureBindGroup (Suc (Suc (length (bind_groups_created dev)))) tB]"
      .
    from r s sd dc tb f show ?thesis by (auto simp add: snd_batching)
  qed
  from general example show ?thesis by blast
qed

theorem drawn_in_first_encounter_order_witness:
  "sprite_texture demo_sprite = demo_texture
   \<and> sprite_texture demo_sprite_b = demo_texture_b
   \<and> sprite_texture demo_rotated = demo_texture
   \<and> demo_texture \<noteq> demo_texture_b
   \<and> (\<exists>st' pass.
         render (pipeline fresh_device) [demo_sprite, demo_sprite_b, demo_rotated] = Inr st'
         \<and> submitted (device st') = [pass]
         \<and> texture_binds pass
             = [TextureBindGroup 1 demo_texture, TextureBindGroup 2 demo_texture_b]
         \<and> draw_calls pass = [12, 6]
         \<and> concat (map slots (batches_of
               (snd (batching (pipeline fresh_device)
                  [demo_sprite, demo_sprite_b, demo_rotated])) demo_texture))
             = [sprite_floats demo_sprite, sprite_floats demo_rotated])"
proof -
  have h: "sprite_texture demo_sprite = demo_texture
     \<and> sprite_texture demo_sprite_b = demo_texture_b
     \<and> sprite_texture demo_rotated = demo_texture
     \<and> demo_texture \<noteq> demo_texture_b"
    by (simp add: demo_sprite_def demo_sprite_b_def demo_rotated_def demo_texture_def
        demo_texture_b_def)
  have p: "bind_groups_created fresh_device = []" "submitted fresh_device = []"
    by (simp_all add: fresh_device_def)
  from drawn_in_first_encounter_order
    [of _ _ demo_sprite demo_texture demo_sprite_b demo_texture_b demo_rotated fresh_device] h
  have "\<exists>st' pass.
         render (pipeline fresh_device) [demo_sprite, demo_sprite_b, demo_rotated] = Inr st'
         \<and> submitted (device st') = submitted fresh_device @ [pass]
         \<and> texture_binds pass
             = [TextureBindGroup (Suc (length (bind_groups_created fresh_device))) demo_texture,
                TextureBindGroup (Suc (Suc (length (bind_groups_created fresh_device))))
                  demo_texture_b]
         \<and> draw_calls pass = [12, 6]
         \<and> concat (map slots (batches_of
               (snd (batching (pipeline fresh_device)
                  [demo_sprite, demo_sprite_b, demo_rotated])) demo_texture))
             = [sprite_floats demo_sprite, sprite_floats demo_rotated]"
    by blast
  then have "\<exists>st' pass.
         render (pipeline fresh_device) [demo_sprite, demo_sprite_b, demo_rotated] = Inr st'
         \<and> submitted (device st') = [pass]
         \<and> texture_binds pass
             = [TextureBindGroup 1 demo_texture, TextureBindGroup 2 demo_texture_b]
         \<and> draw_calls pass = [12, 6]
         \<and> concat (map slots (batches_of
               (snd (batching (pipeline fresh_device)
                  [demo_sprite, demo_sprite_b, demo_rotated])) demo_texture))
             = [sprite_floats demo_sprite, sprite_floats demo_rotated]"
    by (simp add: p numeral_2_eq_2)
  with h show ?thesis by blast
qed

text \<open>
  C4, as amended. A sprite with rotation 0, written into a batch that has room for it: the
  values at the offsets 0, 1 (top-left), 8, 9 (top-right), 16, 17 (bottom-right) and
  24, 25 (bottom-left) of its slot are \<open>(x, y)\<close>, \<open>(x + width, y)\<close>,
  \<open>(x + width, y + height)\<close> and \<open>(x, y + height)\<close>, the sums being JavaScript's, each
  rounded to single precision by the store; no rotation is applied.
\<close>

theorem unrotated_corners_rounded:
  assumes "sprite_rotation s = Finite 0"
    and "instances b < MAX_SPRITES_PER_BATCH"
    and "length (vertices b) = MAX_SPRITES_PER_BATCH * FLOATS_PER_SPRITE"
  shows "[(vertices (write_vertices b s) ! (0 + instances b * FLOATS_PER_SPRITE),
           vertices (write_vertices b s) ! (1 + instances b * FLOATS_PER_SPRITE)),
          (vertices (write_vertices b s) ! (8 + instances b * FLOATS_PER_SPRITE),
           vertices (write_vertices b s) ! (9 + instances b * FLOATS_PER_SPRITE)),
          (vertices (write_vertices b s) ! (16 + instances b * FLOATS_PER_SPRITE),
           vertices (write_vertices b s) ! (17 + instances b * FLOATS_PER_SPRITE)),
          (vertices (write_vertices b s) ! (24 + instances b * FLOATS_PER_SPRITE),
           vertices (write_vertices b s) ! (25 + instances b * FLOATS_PER_SPRITE))]
         = [(fround (sprite_x s), fround (sprite_y s)),
            (fround (js_add (sprite_x s) (sprite_width s)), fround (sprite_y s)),
            (fround (js_add (sprite_x s) (sprite_width s)),
             fround (js_add (sprite_y s) (sprite_height s))),
            (fround (sprite_x s), fround (js_add (sprite_y s) (sprite_height s)))]"
  unfolding written_positions [OF assms(2,3)]
  using assms(1) by (simp add: sprite_corners_def fround2_def)

theorem unrotated_corners_rounded_witness:
  "sprite_rotation demo_sprite = Finite 0
   \<and> instances (new_batch demo_texture) < MAX_SPRITES_PER_BATCH
   \<and> length (vertices (new_batch demo_texture)) = MAX_SPRITES_PER_BATCH * FLOATS_PER_SPRITE
   \<and> [(vertices (write_vertices (new_batch demo_texture) demo_sprite) ! 0,
        vertices (write_vertices (new_batch demo_texture) demo_sprite) ! 1),
       (vertices (write_vertices (new_batch demo_texture) demo_sprite) ! 8,
        vertices (write_vertices (new_batch demo_texture) demo_sprite) ! 9),
       (vertices (write_vertices (new_batch demo_texture) demo_sprite) ! 16,
        vertices (write_vertices (new_batch demo_texture) demo_sprite) ! 17),
       (vertices (write_vertices (new_batch demo_texture) demo_sprite) ! 24,
        vertices (write_vertices (new_batch demo_texture) demo_sprite) ! 25)]
      = [(Finite 10, Finite 20), (Finite 26, Finite 20),
         (Finite 26, Finite 28), (Finite 10, Finite 28)]"
proof -
  have r: "sprite_rotation demo_sprite = Finite 0" by (simp add: demo_sprite_def)
  note h = new_batch_has_room [of demo_texture]
  from unrotated_corners_rounded [OF r conjunct1 [OF h] conjunct2 [OF h]] r h
  show ?thesis
    by (simp add: instances_new_batch demo_sprite_def binary64_numeral binary32_numeral)
qed

text \<open>
  C4 as stated fails where a corner is not a single-precision value: for \<open>x = 16777217\<close>
  and width 1, the top-left vertex is written at \<open>x = 16777216\<close> and the top-right one at
  \<open>x = 16777218\<close>.
\<close>

theorem unrotated_corners_counterexample:
  "sprite_rotation demo_far = Finite 0
   \<and> sprite_x demo_far = Finite 16777217
   \<and> binary64 16777217 = Finite 16777217
   \<and> js_add (sprite_x demo_far) (sprite_width demo_far) = Finite 16777218
   \<and> vertices (write_vertices (new_batch demo_texture) demo_far) ! 0 = Finite 16777216
   \<and> vertices (write_vertices (new_batch demo_texture) demo_far) ! 8 = Finite 16777218
   \<and> vertices (write_vertices (new_batch demo_texture) demo_far) ! 0 \<noteq> sprite_x demo_far"
proof -
  note h = new_batch_has_room [of demo_texture]
  have "[(vertices (write_vertices (new_batch demo_texture) demo_far) ! 0,
          vertices (write_vertices (new_batch demo_texture) demo_far) ! 1),
         (vertices (write_vertices (new_batch demo_texture) demo_far) ! 8,
          vertices (write_vertices (new_batch demo_texture) demo_far) ! 9),
         (vertices (write_vertices (new_batch demo_texture) demo_far) ! 16,
          vertices (write_vertices (new_batch demo_texture) demo_far) ! 17),
         (vertices (write_vertices (new_batch demo_texture) demo_far) ! 24,
          vertices (write_vertices (new_batch demo_texture) demo_far) ! 25)]
        = (case sprite_corners demo_far of (p0, p1, p2, p3) \<Rightarrow>
             [fround2 p0, fround2 p1, fround2 p2, fround2 p3])"
    using written_positions [OF conjunct1 [OF h] conjunct2 [OF h], of demo_far]
    by (simp add: instances_new_batch)
  then show ?thesis
    by (simp add: sprite_corners_def fround2_def demo_far_def demo_sprite_def
        binary64_numeral binary32_numeral binary32_16777217 binary32_16777218)
qed

text \<open>
  C5 (the corners of a rotated sprite; at the rotation \<open>pi\<close> and the origin \<open>(1/2, 1/2)\<close>
  they are the reflections of the unrotated corners through the centre) is a statement
  about floating-point results: no number is \<open>pi\<close>, and at the double nearest to it the
  corners depend on the values of \<^verbatim>\<open>Math.sin\<close> and \<^verbatim>\<open>Math.cos\<close>, which the language leaves
  to the implementation, and on the roundings in \<^verbatim>\<open>rotate\<close>, whose source is not among the
  sources. It is not stated as a theorem.
\<close>

text \<open>
  C6, as amended. For every sprite written into a batch that has room for it, the top-left
  vertex gets \<open>(u[0], v[0])\<close>, the top-right \<open>(u[1], v[0])\<close>, the bottom-right
  \<open>(u[1], v[1])\<close> and the bottom-left \<open>(u[0], v[1])\<close>, each rounded to single precision by
  the store, where \<open>u\<close> and \<open>v\<close> are the frame's bounds divided by the texture's width and
  height, in JavaScript's arithmetic. A frame that is the whole texture, of a width and a
  height that are not zero, gives exactly 0 and 1.
\<close>

theorem texture_coordinates_rounded:
  assumes "instances b < MAX_SPRITES_PER_BATCH"
    and "length (vertices b) = MAX_SPRITES_PER_BATCH * FLOATS_PER_SPRITE"
  shows "sprite_u s
           = (js_div (frame_x (sprite_frame s)) (of_uint (tex_width (sprite_texture s))),
              js_div (js_add (frame_x (sprite_frame s)) (frame_width (sprite_frame s)))
                (of_uint (tex_width (sprite_texture s))))
     \<and> sprite_v s
           = (js_div (frame_y (sprite_frame s)) (of_uint (tex_height (sprite_texture s))),
              js_div (js_add (frame_y (sprite_frame s)) (frame_height (sprite_frame s)))
                (of_uint (tex_height (sprite_texture s))))
     \<and> [(vertices (write_vertices b s) ! (2 + instances b * FLOATS_PER_SPRITE),
           vertices (write_vertices b s) ! (3 + instances b * FLOATS_PER_SPRITE)),
          (vertices (write_vertices b s) ! (10 + instances b * FLOATS_PER_SPRITE),
           vertices (write_vertices b s) ! (11 + instances b * FLOATS_PER_SPRITE)),
          (vertices (write_vertices b s) ! (18 + instances b * FLOATS_PER_SPRITE),
           vertices (write_vertices b s) ! (19 + instances b * FLOATS_PER_SPRITE)),
          (vertices (write_vertices b s) ! (26 + instances b * FLOATS_PER_SPRITE),
           vertices (write_vertices b s) ! (27 + instances b * FLOATS_PER_SPRITE))]
        = [(fround (fst (sprite_u s)), fround (fst (sprite_v s))),
           (fround (snd (sprite_u s)), fround (fst (sprite_v s))),
           (fround (snd (sprite_u s)), fround (snd (sprite_v s))),
           (fround (fst (sprite_u s)), fround (snd (sprite_v s)))]
     \<and> (frame_x (sprite_frame s) = Finite 0 \<and> frame_y (sprite_frame s) = Finite 0
         \<and> frame_width (sprite_frame s) = of_uint (tex_width (sprite_texture s))
         \<and> frame_height (sprite_frame s) = of_uint (tex_height (sprite_texture s))
         \<and> tex_width (sprite_texture s) \<noteq> 0 \<and> tex_height (sprite_texture s) \<noteq> 0 \<longrightarrow>
         [(vertices (write_vertices b s) ! (2 + instances b * FLOATS_PER_SPRITE),
           vertices (write_vertices b s) ! (3 + instances b * FLOATS_PER_SPRITE)),
          (vertices (write_vertices b s) ! (10 + instances b * FLOATS_PER_SPRITE),
           vertices (write_vertices b s) ! (11 + instances b * FLOATS_PER_SPRITE)),
          (vertices (write_vertices b s) ! (18 + instances b * FLOATS_PER_SPRITE),
           vertices (write_vertices b s) ! (19 + instances b * FLOATS_PER_SPRITE)),
          (vertices (write_vertices b s) ! (26 + instances b * FLOATS_PER_SPRITE),
           vertices (write_vertices b s) ! (27 + instances b * FLOATS_PER_SPRITE))]
         = [(Finite 0, Finite 0), (Finite 1, Finite 0),
            (Finite 1, Finite 1), (Finite 0, Finite 1)])"
  unfolding written_uvs [OF assms]
  by (simp add: sprite_u_def sprite_v_def full_frame_quotients binary32_0 binary32_1)

theorem texture_coordinates_rounded_witness:
  "instances (new_batch demo_texture) < MAX_SPRITES_PER_BATCH
   \<and> length (vertices (new_batch demo_texture)) = MAX_SPRITES_PER_BATCH * FLOATS_PER_SPRITE
   \<and> frame_x (sprite_frame demo_sprite) = Finite 0
   \<and> frame_y (sprite_frame demo_sprite) = Finite 0
   \<and> frame_width (sprite_frame demo_sprite) = of_uint (tex_width (sprite_texture demo_sprite))
   \<and> frame_height (sprite_frame demo_sprite)
       = of_uint (tex_height (sprite_texture demo_sprite))
   \<and> tex_width (sprite_texture demo_sprite) \<noteq> 0
   \<and> tex_height (sprite_texture demo_sprite) \<noteq> 0
   \<and> [(vertices (write_vertices (new_batch demo_texture) demo_sprite) ! 2,
        vertices (write_vertices (new_batch demo_texture) demo_sprite) ! 3),
       (vertices (write_vertices (new_batch demo_texture) demo_sprite) ! 10,
        vertices (write_vertices (new_batch demo_texture) demo_sprite) ! 11),
       (vertices (write_vertices (new_batch demo_texture) demo_sprite) ! 18,
        vertices (write_vertices (new_batch demo_texture) demo_sprite) ! 19),
       (vertices (write_vertices (new_batch demo_texture) demo_sprite) ! 26,
        vertices (write_vertices (new_batch demo_texture) demo_sprite) ! 27)]
      = [(Finite 0, Finite 0), (Finite 1, Finite 0),
         (Finite 1, Finite 1), (Finite 0, Finite 1)]"
proof -
  note h = new_batch_has_room [of demo_texture]
  have f: "frame_x (sprite_frame demo_sprite) = Finite 0
   \<and> frame_y (sprite_frame demo_sprite) = Finite 0
   \<and> frame_width (sprite_frame demo_sprite) = of_uint (tex_width (sprite_texture demo_sprite))
   \<and> frame_height (sprite_frame demo_sprite)
       = of_uint (tex_height (sprite_texture demo_sprite))
   \<and> tex_width (sprite_texture demo_sprite) \<noteq> 0
   \<and> tex_height (sprite_texture demo_sprite) \<noteq> 0"
    by (simp add: demo_sprite_def demo_texture_def of_uint_def)
  have i: "instances (new_batch demo_texture) * FLOATS_PER_SPRITE = 0"
    by (simp add: instances_new_batch)
  note t = texture_coordinates_rounded [OF conjunct1 [OF h] conjunct2 [OF h], of demo_sprite]
  from t [unfolded i add.right_neutral] f h show ?thesis by blast
qed

text \<open>
  C6 as stated fails where a quotient is not a single-precision value, and for a texture
  of width and height 0: with \<open>frame.x = 1\<close> on a texture of width 3 the quotient is the
  double nearest to 1/3 and the value written is the single-precision value nearest to
  it; a frame that is all of a texture of width 0 gives NaN.
\<close>

theorem texture_coordinates_counterexample:
  "fst (sprite_u demo_third) = Finite (6004799503160661 / 18014398509481984)
   \<and> vertices (write_vertices (new_batch (sprite_texture demo_third)) demo_third) ! 2
       = Finite (11184811 / 33554432)
   \<and> vertices (write_vertices (new_batch (sprite_texture demo_third)) demo_third) ! 2
       \<noteq> fst (sprite_u demo_third)
   \<and> frame_x (sprite_frame demo_zero) = Finite 0
   \<and> frame_width (sprite_frame demo_zero) = of_uint (tex_width (sprite_texture demo_zero))
   \<and> vertices (write_vertices (new_batch (sprite_texture demo_zero)) demo_zero) ! 2 = NaN
   \<and> vertices (write_vertices (new_batch (sprite_texture demo_zero)) demo_zero) ! 18 = NaN"
proof -
  note h = new_batch_has_room [of "sprite_texture demo_third"]
  note k = new_batch_has_room [of "sprite_texture demo_zero"]
  have u3: "sprite_u demo_third
            = (Finite (6004799503160661 / 18014398509481984),
               js_div (binary64 2) (Finite 3))"
    by (simp add: sprite_u_def demo_third_def demo_sprite_def of_uint_def binary64_third)
  have u0: "sprite_u demo_zero = (NaN, NaN)" and v0: "sprite_v demo_zero = (NaN, NaN)"
    by (simp_all add: sprite_u_def sprite_v_def demo_zero_def demo_sprite_def of_uint_def
        binary64_0)
  have "vertices (write_vertices (new_batch (sprite_texture demo_third)) demo_third) ! 2
        = fround (fst (sprite_u demo_third))"
    using written_uvs [OF conjunct1 [OF h] conjunct2 [OF h], of demo_third]
    by (simp add: instances_new_batch)
  then have t2: "vertices (write_vertices (new_batch (sprite_texture demo_third)) demo_third) ! 2
        = Finite (11184811 / 33554432)"
    by (simp add: u3 binary32_third)
  have "vertices (write_vertices (new_batch (sprite_texture demo_zero)) demo_zero) ! 2
        = fround (fst (sprite_u demo_zero))"
      and "vertices (write_vertices (new_batch (sprite_texture demo_zero)) demo_zero) ! 18
        = fround (snd (sprite_u demo_zero))"
    using written_uvs [OF conjunct1 [OF k] conjunct2 [OF k], of demo_zero]
    by (simp_all add: instances_new_batch)
  then have z: "vertices (write_vertices (new_batch (sprite_texture demo_zero)) demo_zero) ! 2 = NaN"
      "vertices (write_vertices (new_batch (sprite_texture demo_zero)) demo_zero) ! 18 = NaN"
    by (simp_all add: u0)
  have f: "frame_x (sprite_frame demo_zero) = Finite 0"
    "frame_width (sprite_frame demo_zero) = of_uint (tex_width (sprite_texture demo_zero))"
    by (simp_all add: demo_zero_def demo_sprite_def of_uint_def)
  show ?thesis
    unfolding t2 z f u3 by simp
qed

text \<open>
  C7. For every sequence of frames rendered by a pipeline, the textures for which a
  bind group was created are the distinct textures of all the sprites of all the frames,
  each once, in the order of their first occurrence, and they are the keys of the cache;
  whatever is rendered later, the cache keeps its entries and only grows at its end.
\<close>

theorem one_bind_group_per_texture:
  "\<exists>st1 st2 new.
     render_frames (pipeline dev) frames = Inr st1
     \<and> created_textures (bind_groups_created (device st1))
         = created_textures (bind_groups_created dev)
           @ first_encounter (map sprite_texture (concat frames))
     \<and> map fst (textureBindGroups st1)
         = first_encounter (map sprite_texture (concat frames))
     \<and> render_frames st1 later = Inr st2
     \<and> textureBindGroups st2 = textureBindGroups st1 @ new"
proof -
  have k0: "map fst (textureBindGroups (pipeline dev)) = first_encounter []"
    by (simp add: pipeline_cache)
  have c0: "created_textures (bind_groups_created (device (pipeline dev)))
            = created_textures (bind_groups_created dev)
              @ map fst (textureBindGroups (pipeline dev))"
    by (simp add: pipeline_cache pipeline_created created_textures_def)
  from render_frames_created [OF k0 c0, of frames] obtain st1
    where r1: "render_frames (pipeline dev) frames = Inr st1"
      and k1: "map fst (textureBindGroups st1)
               = first_encounter (map sprite_texture (concat frames))"
      and c1: "created_textures (bind_groups_created (device st1))
               = created_textures (bind_groups_created dev) @ map fst (textureBindGroups st1)"
    by auto
  from render_frames_ok [of st1 later] obtain st2 new
    where r2: "render_frames st1 later = Inr st2"
      and n: "textureBindGroups st2 = textureBindGroups st1 @ new"
    by blast
  from r1 k1 c1 r2 n show ?thesis by simp
qed

text \<open>
  C8, as amended. One call of the render pass returns to the pool every buffer that was in
  it and adds the buffers allocated during the call; their number is the number of
  batches beyond the size of the pool, so the pool never shrinks. After \<open>n > 0\<close> frames
  with the same sprites, the pipeline has allocated \<open>max 1 B\<close> vertex buffers, \<open>B\<close> being
  the number of batches of a frame: as many as after the first frame.
\<close>

theorem pool_grows_to_peak:
  "(\<exists>st'. render st sprites = Inr st'
      \<and> mset (vertexBuffers st')
          = mset (vertexBuffers st)
            + mset [vertex_buffers_allocated (device st)
                    ..< vertex_buffers_allocated (device st')]
      \<and> vertex_buffers_allocated (device st')
          = vertex_buffers_allocated (device st)
            + (length (concat (map snd (snd (batching st sprites))))
               - length (vertexBuffers st))
      \<and> length (vertexBuffers st) \<le> length (vertexBuffers st'))
   \<and> (0 < n \<longrightarrow>
        buffers_allocated_by dev (replicate n sprites)
          = Some (max 1 (length (concat (map snd (snd (batching (pipeline dev) sprites))))))
        \<and> buffers_allocated_by dev (replicate n sprites)
          = buffers_allocated_by dev [sprites])"
proof -
  from render_rendered [of st sprites] obtain st'
    where r: "render st sprites = Inr st'" and d: "rendered st sprites st'" by blast
  from d rendered_pool_length [OF d] r
  have one: "\<exists>st'. render st sprites = Inr st'
      \<and> mset (vertexBuffers st')
          = mset (vertexBuffers st)
            + mset [vertex_buffers_allocated (device st)
                    ..< vertex_buffers_allocated (device st')]
      \<and> vertex_buffers_allocated (device st')
          = vertex_buffers_allocated (device st)
            + (length (concat (map snd (snd (batching st sprites))))
               - length (vertexBuffers st))
      \<and> length (vertexBuffers st) \<le> length (vertexBuffers st')"
    by (simp add: rendered_def snd_batching_frame)
  have many: "buffers_allocated_by dev (replicate k sprites)
          = Some (max 1 (length (concat (map snd (snd (batching (pipeline dev) sprites))))))"
    if "0 < k" for k
  proof -
    from render_frames_same [OF that, of "pipeline dev" sprites] obtain stn
      where rn: "render_frames (pipeline dev) (replicate k sprites) = Inr stn"
        and an: "vertex_buffers_allocated (device stn)
                 = vertex_buffers_allocated (device (pipeline dev))
                   + (length (frame_batches sprites) - length (vertexBuffers (pipeline dev)))"
      by auto
    from rn an show ?thesis
      by (auto simp add: buffers_allocated_by_def pipeline_pool snd_batching_frame max_def)
  qed
  have "buffers_allocated_by dev (replicate 1 sprites)
          = Some (max 1 (length (concat (map snd (snd (batching (pipeline dev) sprites))))))"
    by (rule many) simp
  with many [of n] one show ?thesis by simp
qed

theorem pool_grows_to_peak_witness:
  "(0::nat) < 2
   \<and> buffers_allocated_by fresh_device (replicate 2 [demo_sprite])
       = Some (max 1 (length (concat (map snd
           (snd (batching (pipeline fresh_device) [demo_sprite]))))))
   \<and> buffers_allocated_by fresh_device (replicate 2 [demo_sprite])
       = buffers_allocated_by fresh_device [[demo_sprite]]"
proof -
  have h: "(0::nat) < 2" by simp
  from pool_grows_to_peak [of "pipeline fresh_device" "[demo_sprite]" 2 fresh_device] h
  show ?thesis by blast
qed

text \<open>
  C8 as stated fails for the empty sprite list: a frame has no batch, and the pipeline
  has allocated one vertex buffer, at its construction.
\<close>

theorem pool_empty_frames_counterexample:
  "buffers_allocated_by fresh_device [[], []] = Some 1
   \<and> length (concat (map snd (snd (batching (pipeline fresh_device) [])))) = 0
   \<and> buffers_allocated_by fresh_device [[], []]
       \<noteq> Some (length (concat (map snd (snd (batching (pipeline fresh_device) [])))))"
  by (simp add: buffers_allocated_by_def render_def batching_def pipeline_def
      vertexBufferAlloc_def fresh_device_def submit_def Let_def)

text \<open>
  C9 (the render pass changes no field of a sprite it is given and keeps no reference to
  one) is a property of JavaScript's heap of objects. Sprites are values here, and the
  state of the closure has no component of a type that holds a sprite; the property is
  not stated as a theorem.
\<close>

text \<open>
  C10. The render pass never throws \<^verbatim>\<open>Texture bind group not found!\<close>: for every state
  of the closure and every sprite list it returns.
\<close>

theorem bind_group_lookup_never_fails:
  "render st sprites \<noteq> Inl TextureBindGroupNotFound
   \<and> (\<exists>st'. render st sprites = Inr st')"
  using render_rendered [of st sprites] by auto

end
